theory Spec2Isabelle
  imports Main "HOL-Library.Char_ord" "HOL-Library.List_Lexorder"
begin

section \<open>The store: four tables\<close>

text \<open>
  The program keeps its data in four SQLite tables created by
  \<^verbatim>\<open>CREATE TABLE IF NOT EXISTS\<close> (workout.py, lines 15-53). A table is the list of
  its rows in insertion order; a row is a record with the columns of the table in the
  order of the schema, so that the tuple index of the Python code (\<^verbatim>\<open>user[0]\<close>,
  \<^verbatim>\<open>user[2]\<close>, \<^verbatim>\<open>user[3]\<close>) is a field of the record.

  Text columns are \<^typ>\<open>string\<close> (the UTF-8 bytes of the Python string: equality and
  the order of code points are those of the bytes). Integer columns are \<^typ>\<open>int\<close>,
  as Python's integers are; where the program has integers added up in 64 bits (the
  sums of the data frames, SQLite's \<^verbatim>\<open>SUM\<close>) the wrap-around or the overflow error
  is written out. Calls into the store, the PDF library and the file system are taken
  to succeed, except where the schema makes the store refuse a row, a \<^verbatim>\<open>SUM\<close>
  overflows, or a text of the report has no Latin-1 encoding.
\<close>

record user =
  id_u :: int
  username :: string
  password :: string
  name :: string
  email :: string

record workout =
  id_w :: int
  user_id :: int
  workout_type :: string
  duration :: int
  calories_burned :: int

record challenge =
  id_c :: int
  user_id_c :: int
  challenge_name :: string
  goal :: int
  challenge_type :: string

record challenge_participant =
  user_id_p :: int
  challenge_id :: int

record db =
  users :: "user list"
  workouts :: "workout list"
  challenges :: "challenge list"
  challenge_participants :: "challenge_participant list"

text \<open>A fresh database file: the four tables exist and are empty.\<close>

definition init_db :: db where
  "init_db = \<lparr>users = [], workouts = [], challenges = [], challenge_participants = []\<rparr>"

text \<open>
  \<^verbatim>\<open>INTEGER PRIMARY KEY AUTOINCREMENT\<close>: the new row id is one more than the largest
  id the table has ever held, and 1 in an empty table. The program has no
  \<^verbatim>\<open>DELETE\<close> and never supplies an id, so the largest id ever held is the largest
  id present.
\<close>

definition next_rowid :: "int list \<Rightarrow> int" where
  "next_rowid ids = fold max ids 0 + 1"

text \<open>Exceptions of the Python code that the model can raise.\<close>

datatype exn =
    IntegrityError      \<comment> \<open>sqlite3: \<^verbatim>\<open>UNIQUE constraint failed: users.username\<close>\<close>
  | TypeError           \<comment> \<open>\<^verbatim>\<open>'NoneType' object is not subscriptable\<close>\<close>
  | OperationalError    \<comment> \<open>sqlite3: \<^verbatim>\<open>integer overflow\<close>\<close>
  | UnicodeEncodeError  \<comment> \<open>\<^verbatim>\<open>'latin-1' codec can't encode character\<close>\<close>

section \<open>Authentication functions\<close>

text \<open>
  \<^verbatim>\<open>check_user\<close> (lines 56-58): \<^verbatim>\<open>SELECT * FROM users WHERE username = ?\<close> and
  \<^verbatim>\<open>fetchone()\<close>, the first matching row or \<^verbatim>\<open>None\<close>. The comparison of the
  \<^verbatim>\<open>TEXT\<close> column is SQLite's default binary collation: equality of the strings.
\<close>

definition check_user :: "db \<Rightarrow> string \<Rightarrow> user option" where
  "check_user d uname = find (\<lambda>u. username u = uname) (users d)"

text \<open>
  \<^verbatim>\<open>add_user\<close> (lines 60-63): one \<^verbatim>\<open>INSERT\<close>. The column \<^verbatim>\<open>username\<close> is
  \<^verbatim>\<open>UNIQUE\<close>, so the store refuses a second row with the same username and
  sqlite3 raises \<^verbatim>\<open>IntegrityError\<close>; nothing is inserted then.
\<close>

definition add_user :: "db \<Rightarrow> string \<Rightarrow> string \<Rightarrow> string \<Rightarrow> string \<Rightarrow> exn + db" where
  "add_user d uname pw nm em =
     (if uname \<in> set (map username (users d)) then Inl IntegrityError
      else Inr (d\<lparr>users := users d @
             [\<lparr>id_u = next_rowid (map id_u (users d)), username = uname,
               password = pw, name = nm, email = em\<rparr>]\<rparr>))"

text \<open>
  Python's \<^verbatim>\<open>user[2]\<close>: subscripting \<^verbatim>\<open>None\<close> raises \<^verbatim>\<open>TypeError\<close>, subscripting
  a row of \<^verbatim>\<open>users\<close> at 2 gives its password.
\<close>

definition subscript_2 :: "user option \<Rightarrow> exn + string" where
  "subscript_2 r = (case r of None \<Rightarrow> Inl TypeError | Some u \<Rightarrow> Inr (password u))"

text \<open>
  \<^verbatim>\<open>verify_user\<close> (lines 65-69). \<^verbatim>\<open>user and user[2] == password\<close> evaluates its
  right operand only when \<^verbatim>\<open>user\<close> is truthy; a fetched row is a non-empty tuple,
  hence truthy, and \<^verbatim>\<open>None\<close> is falsy. The result is the row, or \<^verbatim>\<open>None\<close>.
\<close>

definition verify_user :: "db \<Rightarrow> string \<Rightarrow> string \<Rightarrow> exn + user option" where
  "verify_user d uname pw =
     (let usr = check_user d uname in
      if usr \<noteq> None then
        (case subscript_2 usr of
           Inl e \<Rightarrow> Inl e
         | Inr stored \<Rightarrow> if stored = pw then Inr usr else Inr None)
      else Inr None)"

text \<open>\<^verbatim>\<open>reset_password\<close> (lines 202-204): \<^verbatim>\<open>UPDATE users SET password = ? WHERE username = ?\<close>.\<close>

definition reset_password :: "db \<Rightarrow> string \<Rightarrow> string \<Rightarrow> db" where
  "reset_password d uname new_password =
     d\<lparr>users := map (\<lambda>u. if username u = uname then u\<lparr>password := new_password\<rparr> else u)
                    (users d)\<rparr>"

section \<open>Workout and challenge functions\<close>

text \<open>\<^verbatim>\<open>log_workout\<close> (lines 72-75): one \<^verbatim>\<open>INSERT\<close> of the values as they are given.\<close>

definition log_workout :: "db \<Rightarrow> int \<Rightarrow> string \<Rightarrow> int \<Rightarrow> int \<Rightarrow> db" where
  "log_workout d uid wtype dur cal =
     d\<lparr>workouts := workouts d @
        [\<lparr>id_w = next_rowid (map id_w (workouts d)), user_id = uid,
          workout_type = wtype, duration = dur, calories_burned = cal\<rparr>]\<rparr>"

text \<open>\<^verbatim>\<open>create_challenge\<close> (lines 78-81).\<close>

definition create_challenge :: "db \<Rightarrow> int \<Rightarrow> string \<Rightarrow> int \<Rightarrow> string \<Rightarrow> db" where
  "create_challenge d uid cname g ctype =
     d\<lparr>challenges := challenges d @
        [\<lparr>id_c = next_rowid (map id_c (challenges d)), user_id_c = uid,
          challenge_name = cname, goal = g, challenge_type = ctype\<rparr>]\<rparr>"

text \<open>
  \<^verbatim>\<open>join_challenge\<close> (lines 83-86). The table has no key and no \<^verbatim>\<open>UNIQUE\<close> column;
  its \<^verbatim>\<open>FOREIGN KEY\<close> clauses are not enforced, since the connection never turns
  \<^verbatim>\<open>PRAGMA foreign_keys\<close> on. The \<^verbatim>\<open>INSERT\<close> therefore always adds the row.
\<close>

definition join_challenge :: "db \<Rightarrow> int \<Rightarrow> int \<Rightarrow> db" where
  "join_challenge d uid cid =
     d\<lparr>challenge_participants := challenge_participants d @
        [\<lparr>user_id_p = uid, challenge_id = cid\<rparr>]\<rparr>"

section \<open>Aggregation and reporting\<close>

text \<open>
  The two libraries that add integers up do it in signed 64 bits, each in its own way:
  a pandas column of integers is an \<^verbatim>\<open>int64\<close> array whose sum wraps around silently,
  and SQLite's \<^verbatim>\<open>SUM\<close> raises "integer overflow" as soon as a running total leaves
  the range.
\<close>

definition in_int64 :: "int \<Rightarrow> bool" where
  "in_int64 i \<longleftrightarrow> - 9223372036854775808 \<le> i \<and> i \<le> 9223372036854775807"

definition int64 :: "int \<Rightarrow> int" where
  "int64 i = (i + 9223372036854775808) mod 18446744073709551616 - 9223372036854775808"

text \<open>
  \<^verbatim>\<open>Series.sum()\<close> of an integer column: every addition is modulo \<open>2\<^sup>6\<^sup>4\<close>, which
  gives the sum of the values modulo \<open>2\<^sup>6\<^sup>4\<close>, read as a signed number. A column
  without rows sums to 0.
\<close>

definition Series_sum :: "int list \<Rightarrow> int" where
  "Series_sum col = int64 (sum_list col)"

text \<open>
  SQLite's \<^verbatim>\<open>SUM\<close> over the integers of one group, added one after the other from
  0 in the order of the rows; the error ends the whole statement with
  \<^verbatim>\<open>sqlite3.OperationalError\<close>. (A group of a \<^verbatim>\<open>GROUP BY\<close> is never empty.)
\<close>

fun SUM_from :: "int \<Rightarrow> int list \<Rightarrow> exn + int" where
  "SUM_from acc [] = Inr acc"
| "SUM_from acc (x # xs) =
     (if in_int64 (acc + x) then SUM_from (acc + x) xs else Inl OperationalError)"

definition SUM_sqlite :: "int list \<Rightarrow> exn + int" where
  "SUM_sqlite xs = SUM_from 0 xs"

text \<open>The rows of a result, or the first error met while computing them.\<close>

fun collect :: "(exn + 'a) list \<Rightarrow> exn + 'a list" where
  "collect [] = Inr []"
| "collect (x # xs) =
     (case x of
        Inl e \<Rightarrow> Inl e
      | Inr v \<Rightarrow> (case collect xs of Inl e \<Rightarrow> Inl e | Inr vs \<Rightarrow> Inr (v # vs)))"

text \<open>
  The query shared by the dashboard, the visualisations and the report:
  \<^verbatim>\<open>SELECT workout_type, duration, calories_burned FROM workouts WHERE user_id = ?\<close>
  with \<^verbatim>\<open>fetchall()\<close>. The rows come in the order of the table.
\<close>

definition select_workouts :: "db \<Rightarrow> int \<Rightarrow> (string \<times> int \<times> int) list" where
  "select_workouts d uid =
     map (\<lambda>w. (workout_type w, duration w, calories_burned w))
         (filter (\<lambda>w. user_id w = uid) (workouts d))"

text \<open>
  The data frame built from those rows has the columns Workout, Duration and Calories;
  a column is the list of its values.
\<close>

definition col_Workout :: "(string \<times> int \<times> int) list \<Rightarrow> string list" where
  "col_Workout df = map fst df"

definition col_Duration :: "(string \<times> int \<times> int) list \<Rightarrow> int list" where
  "col_Duration df = map (\<lambda>r. fst (snd r)) df"

definition col_Calories :: "(string \<times> int \<times> int) list \<Rightarrow> int list" where
  "col_Calories df = map (\<lambda>r. snd (snd r)) df"

text \<open>
  \<^verbatim>\<open>df.groupby("Workout")["Calories"].sum()\<close>: one entry per distinct workout type,
  in the sorted order of the types, holding the 64-bit sum of the calories of its rows.
\<close>

definition groupby_Workout_Calories_sum :: "(string \<times> int \<times> int) list \<Rightarrow> (string \<times> int) list" where
  "groupby_Workout_Calories_sum df =
     map (\<lambda>k. (k, Series_sum (col_Calories (filter (\<lambda>r. fst r = k) df))))
         (sort (remdups (col_Workout df)))"

text \<open>
  \<^verbatim>\<open>user_dashboard\<close> as it is in force (lines 254-286; the definition at lines 102-126
  is replaced by it), up to the bar chart of line 269: without rows it shows the notice
  "You haven't logged any workouts yet." and returns; otherwise it shows the three
  metrics and the chart of calories by workout type. \<^verbatim>\<open>len(df)\<close> is a Python integer;
  the two totals are 64-bit sums turned into Python integers by \<^verbatim>\<open>int\<close>. The widgets
  after line 269 draw the same data frame and are left out.
\<close>

record metrics =
  total_workouts :: nat
  total_duration :: int
  total_calories :: int
  calories_by_type :: "(string \<times> int) list"

datatype dashboard =
    No_workouts_yet
  | Dashboard metrics

definition user_dashboard :: "db \<Rightarrow> int \<Rightarrow> dashboard" where
  "user_dashboard d uid =
     (let df = select_workouts d uid in
      if df = [] then No_workouts_yet
      else Dashboard
        \<lparr>total_workouts = length df,
         total_duration = Series_sum (col_Duration df),
         total_calories = Series_sum (col_Calories df),
         calories_by_type = groupby_Workout_Calories_sum df\<rparr>)"

text \<open>
  The leaderboard query (lines 89-96):
  \<^verbatim>\<open>SELECT users.username, SUM(workouts.calories_burned) AS total_calories
  FROM workouts JOIN users ON workouts.user_id = users.id
  GROUP BY users.username ORDER BY total_calories DESC\<close>.
  The inner join pairs every workout row with every user row of the same id; the groups
  are the distinct usernames of the joined rows, and each group's total is its
  \<^verbatim>\<open>SUM\<close> (\<open>SUM_sqlite\<close>), so that an overflow in one group fails the query. SQL leaves the order
  of rows with equal totals open. SQLite delivers the groups in descending order of the
  username (it sorts them in the direction of the \<^verbatim>\<open>ORDER BY\<close> term) and its sort
  by total keeps that order among equal totals; no statement below rests on it.
\<close>

definition workouts_JOIN_users :: "db \<Rightarrow> (string \<times> int) list" where
  "workouts_JOIN_users d =
     concat (map (\<lambda>w. map (\<lambda>u. (username u, calories_burned w))
                           (filter (\<lambda>u. user_id w = id_u u) (users d)))
                 (workouts d))"

definition GROUP_BY_username_SUM :: "(string \<times> int) list \<Rightarrow> exn + (string \<times> int) list" where
  "GROUP_BY_username_SUM rows =
     collect
       (map (\<lambda>k. case SUM_sqlite (map snd (filter (\<lambda>r. fst r = k) rows)) of
                   Inl e \<Rightarrow> Inl e
                 | Inr t \<Rightarrow> Inr (k, t))
            (rev (sort (remdups (map fst rows)))))"

definition ORDER_BY_total_calories_DESC :: "(string \<times> int) list \<Rightarrow> (string \<times> int) list" where
  "ORDER_BY_total_calories_DESC rows = sort_key (\<lambda>r. - snd r) rows"

definition leaderboard :: "db \<Rightarrow> exn + (string \<times> int) list" where
  "leaderboard d =
     (case GROUP_BY_username_SUM (workouts_JOIN_users d) of
        Inl e \<Rightarrow> Inl e
      | Inr groups \<Rightarrow> Inr (ORDER_BY_total_calories_DESC groups))"

text \<open>Python's \<^verbatim>\<open>str\<close> of an integer, as an f-string formats it: decimal digits.\<close>

definition digit :: "nat \<Rightarrow> char" where
  "digit n = ''0123456789'' ! n"

function str_nat :: "nat \<Rightarrow> string" where
  "str_nat n = (if n < 10 then [digit n] else str_nat (n div 10) @ [digit (n mod 10)])"
  by pat_completeness auto
termination
  by (relation "measure (\<lambda>n. n)") auto

declare str_nat.simps [simp del]

definition str_int :: "int \<Rightarrow> string" where
  "str_int i = (if i < 0 then CHR ''-'' # str_nat (nat (- i)) else str_nat (nat i))"

text \<open>
  \<^verbatim>\<open>display_leaderboard\<close> (lines 88-99) runs the query and then writes one line per
  fetched row, numbered from 1: \<^verbatim>\<open>f"{i}. {entry[0]} - {entry[1]} calories burned"\<close>.
  When the query raises, the function is left before anything is written.
\<close>

definition display_leaderboard :: "db \<Rightarrow> exn + string list" where
  "display_leaderboard d =
     (case leaderboard d of
        Inl e \<Rightarrow> Inl e
      | Inr rows \<Rightarrow>
          Inr (map (\<lambda>(i, entry). str_nat i @ ''. '' @ fst entry @ '' - ''
                                  @ str_int (snd entry) @ '' calories burned'')
                   (zip [1 ..< Suc (length rows)] rows)))"

text \<open>
  The report is set in the core font Arial, and FPDF encodes the pages in Latin-1 when
  it writes the file: a text with a code point above U+00FF makes \<^verbatim>\<open>pdf.output\<close>
  raise \<^verbatim>\<open>UnicodeEncodeError\<close>, and no file is written. In UTF-8 the code points up
  to U+00FF are the single bytes below 0x80 and the two-byte sequences led by 0xC2 or
  0xC3; every higher code point has a lead byte of 0xC4 or more, and no continuation
  byte reaches 0xC4. So a string can be encoded exactly when all its bytes are below 0xC4.
\<close>

definition latin_1 :: "string \<Rightarrow> bool" where
  "latin_1 txt = list_all (\<lambda>c. (of_char c :: nat) < 196) txt"

text \<open>
  \<^verbatim>\<open>generate_report\<close> (lines 210-251). The document is the sequence of calls made on
  the FPDF object after \<^verbatim>\<open>add_page\<close> and \<^verbatim>\<open>set_font\<close>: \<open>Cell txt align\<close> is
  \<^verbatim>\<open>pdf.cell(200, 10, txt=txt, ln=True, align=align)\<close> and \<open>Ln h\<close> is \<^verbatim>\<open>pdf.ln(h)\<close>.
  The user row is fetched with \<^verbatim>\<open>fetchone()\<close>, so it is \<^verbatim>\<open>None\<close> for an unknown
  id, and \<^verbatim>\<open>user[1]\<close> raises then. The totals are the 64-bit sums of the columns.
  The result is the file written and its name; the download link carries the same
  bytes.
\<close>

datatype pdf_op =
    Cell string string
  | Ln int

definition encodable :: "pdf_op \<Rightarrow> bool" where
  "encodable op = (case op of Cell txt align \<Rightarrow> latin_1 txt | Ln h \<Rightarrow> True)"

record report =
  filepath :: string
  pdf :: "pdf_op list"

definition generate_report :: "db \<Rightarrow> int \<Rightarrow> exn + report" where
  "generate_report d uid =
     (let usr = map_option (\<lambda>u. (username u, name u, email u))
                  (find (\<lambda>u. id_u u = uid) (users d));
          df = select_workouts d uid;
          total_duration = Series_sum (col_Duration df);
          total_calories = Series_sum (col_Calories df)
      in case usr of
           None \<Rightarrow> Inl TypeError
         | Some (usr_0, usr_1, usr_2) \<Rightarrow>
             (let pages =
                    [Cell ''Fitness Report'' ''C'', Ln 10,
                     Cell (''Name: '' @ usr_1) [],
                     Cell (''Username: '' @ usr_0) [],
                     Cell (''Email: '' @ usr_2) [],
                     Ln 10,
                     Cell (''Total Workouts: '' @ str_nat (length df)) [],
                     Cell (''Total Duration: '' @ str_int total_duration @ '' min'') [],
                     Cell (''Total Calories Burned: '' @ str_int total_calories) [],
                     Ln 10,
                     Cell ''Workout Log:'' [],
                     Ln 5]
                    @ map (\<lambda>(w, dur, cal).
                             Cell (w @ '' - '' @ str_int dur @ '' min - '' @ str_int cal
                                   @ '' cal'') [])
                          df
              in if list_all encodable pages
                 then Inr \<lparr>filepath = ''fitness_report_user_'' @ str_int uid @ ''.pdf'',
                           pdf = pages\<rparr>
                 else Inl UnicodeEncodeError))"

section \<open>Pages and the main script\<close>

text \<open>
  What a run of the script shows in reply to a pressed button (\<^verbatim>\<open>st.success\<close>,
  \<^verbatim>\<open>st.error\<close>, \<^verbatim>\<open>st.warning\<close>); the spec's names of the failures are given
  beside the text of the source.
\<close>

datatype message =
    Logged_in_successfully
  | Invalid_username_or_password    \<comment> \<open>InvalidCredentials\<close>
  | Username_already_exists         \<comment> \<open>DuplicateUsername\<close>
  | Account_created
  | Username_not_found              \<comment> \<open>UserNotFound\<close>
  | Passwords_do_not_match          \<comment> \<open>PasswordMismatch\<close>
  | Password_reset_successfully
  | Workout_logged string
  | Challenge_created string
  | You_joined string

text \<open>
  The widgets give the script only values of their range: \<^verbatim>\<open>st.selectbox\<close> one of
  its options, \<^verbatim>\<open>st.number_input\<close> with integer \<^verbatim>\<open>min_value\<close> an integer not below
  it. \<open>None\<close> stands for a value the widget cannot hold.
\<close>

definition selectbox :: "string list \<Rightarrow> string \<Rightarrow> string option" where
  "selectbox options v = (if v \<in> set options then Some v else None)"

definition number_input :: "int \<Rightarrow> int \<Rightarrow> int option" where
  "number_input min_value v = (if min_value \<le> v then Some v else None)"

text \<open>
  The Signup branch of \<^verbatim>\<open>main\<close> with the button pressed (lines 322-333), the
  spec's \<^verbatim>\<open>registerUser\<close>. An exception of \<^verbatim>\<open>add_user\<close> would leave the script.
\<close>

definition signup :: "db \<Rightarrow> string \<Rightarrow> string \<Rightarrow> string \<Rightarrow> string \<Rightarrow> exn + (message \<times> db)" where
  "signup d uname pw nm em =
     (if check_user d uname \<noteq> None then Inr (Username_already_exists, d)
      else (case add_user d uname pw nm em of
              Inl e \<Rightarrow> Inl e
            | Inr d' \<Rightarrow> Inr (Account_created, d')))"

text \<open>
  The Login branch with the button pressed (lines 308-320): the message, and the row
  that is kept in the session.
\<close>

definition login :: "db \<Rightarrow> string \<Rightarrow> string \<Rightarrow> exn + (message \<times> user option)" where
  "login d uname pw =
     (case verify_user d uname pw of
        Inl e \<Rightarrow> Inl e
      | Inr None \<Rightarrow> Inr (Invalid_username_or_password, None)
      | Inr (Some usr) \<Rightarrow> Inr (Logged_in_successfully, Some usr))"

text \<open>The Forgot Password branch with the button pressed (lines 335-347).\<close>

definition forgot_password :: "db \<Rightarrow> string \<Rightarrow> string \<Rightarrow> string \<Rightarrow> message \<times> db" where
  "forgot_password d uname new_password confirm_password =
     (if check_user d uname = None then (Username_not_found, d)
      else if new_password \<noteq> confirm_password then (Passwords_do_not_match, d)
      else (Password_reset_successfully, reset_password d uname new_password))"

text \<open>\<^verbatim>\<open>workout_page\<close> with the button pressed (lines 141-148).\<close>

definition workout_types :: "string list" where
  "workout_types = [[], ''Running'', ''Cycling'', ''Strength Training'', ''Yoga'', ''Other'']"

definition workout_page :: "db \<Rightarrow> int \<Rightarrow> string \<Rightarrow> int \<Rightarrow> int \<Rightarrow> (message \<times> db) option" where
  "workout_page d uid wtype dur cal =
     (case selectbox workout_types wtype of
        None \<Rightarrow> None
      | Some workout_type' \<Rightarrow>
     (case number_input 1 dur of
        None \<Rightarrow> None
      | Some duration' \<Rightarrow>
     (case number_input 0 cal of
        None \<Rightarrow> None
      | Some calories_burned' \<Rightarrow>
          Some (Workout_logged workout_type',
                log_workout d uid workout_type' duration' calories_burned'))))"

text \<open>
  \<^verbatim>\<open>challenge_page\<close> (lines 151-167) with one of its buttons pressed: "Create
  Challenge", or "Join" beside one of the two challenges listed in the source.
\<close>

datatype challenge_button =
    Create_Challenge string int string
  | Join string

definition challenge_types :: "string list" where
  "challenge_types = [[], ''Time-based'', ''Reps-based'', ''Distance-based'']"

definition listed_challenges :: "(int \<times> string \<times> int) list" where
  "listed_challenges = [(1, ''Running Challenge'', 100), (2, ''Cycling Challenge'', 50)]"

definition challenge_page :: "db \<Rightarrow> int \<Rightarrow> challenge_button \<Rightarrow> (message \<times> db) option" where
  "challenge_page d uid b =
     (case b of
        Create_Challenge cname g ctype \<Rightarrow>
          (case number_input 1 g of
             None \<Rightarrow> None
           | Some goal' \<Rightarrow>
          (case selectbox challenge_types ctype of
             None \<Rightarrow> None
           | Some challenge_type' \<Rightarrow>
               Some (Challenge_created cname,
                     create_challenge d uid cname goal' challenge_type')))
      | Join nm \<Rightarrow>
          (case find (\<lambda>(cid, nm', g). nm' = nm) listed_challenges of
             None \<Rightarrow> None
           | Some (cid, nm', g) \<Rightarrow> Some (You_joined nm', join_challenge d uid cid)))"

text \<open>
  The state of the application: the store, and the session state of Streamlit
  (\<^verbatim>\<open>st.session_state.logged_in\<close>, \<^verbatim>\<open>st.session_state.user\<close>).
\<close>

record app =
  store :: db
  logged_in :: bool
  session_user :: "user option"

definition init_app :: app where
  "init_app = \<lparr>store = init_db, logged_in = False, session_user = None\<rparr>"

text \<open>
  One run of \<^verbatim>\<open>main\<close> (lines 290-370) is started by one interaction: a pressed
  button with the values of the widgets beside it, or none. \<open>None\<close> is an interaction
  the page shown in this state does not offer. The report button is drawn only after
  the dashboard has found rows (line 260); the report leaves the store as it is.
\<close>

datatype click =
    No_button
  | Login_button string string
  | Sign_Up_button string string string string
  | Reset_Password_button string string string
  | Logout_button
  | Log_Workout_button string int int
  | Challenge_button challenge_button
  | Generate_Report_button

definition main :: "app \<Rightarrow> click \<Rightarrow> app option" where
  "main s c =
     (if \<not> logged_in s then
        (case c of
           No_button \<Rightarrow> Some s
         | Login_button uname pw \<Rightarrow>
             (case login (store s) uname pw of
                Inr (m, Some usr) \<Rightarrow> Some (s\<lparr>logged_in := True, session_user := Some usr\<rparr>)
              | _ \<Rightarrow> Some s)
         | Sign_Up_button uname pw nm em \<Rightarrow>
             (case signup (store s) uname pw nm em of
                Inr (m, d') \<Rightarrow> Some (s\<lparr>store := d'\<rparr>)
              | Inl e \<Rightarrow> Some s)
         | Reset_Password_button uname new_password confirm_password \<Rightarrow>
             Some (s\<lparr>store := snd (forgot_password (store s) uname new_password confirm_password)\<rparr>)
         | _ \<Rightarrow> None)
      else
        (case session_user s of
           None \<Rightarrow> None
         | Some usr \<Rightarrow>
             (case c of
                No_button \<Rightarrow> Some s
              | Logout_button \<Rightarrow> Some (s\<lparr>logged_in := False, session_user := None\<rparr>)
              | Log_Workout_button wtype dur cal \<Rightarrow>
                  map_option (\<lambda>(m, d'). s\<lparr>store := d'\<rparr>)
                    (workout_page (store s) (id_u usr) wtype dur cal)
              | Challenge_button b \<Rightarrow>
                  map_option (\<lambda>(m, d'). s\<lparr>store := d'\<rparr>)
                    (challenge_page (store s) (id_u usr) b)
              | Generate_Report_button \<Rightarrow>
                  (if user_dashboard (store s) (id_u usr) = No_workouts_yet then None
                   else Some s)
              | _ \<Rightarrow> None)))"

text \<open>The states the application reaches from a fresh database, run by run.\<close>

inductive reachable :: "app \<Rightarrow> bool" where
  start: "reachable init_app"
| run: "reachable s \<Longrightarrow> main s c = Some s' \<Longrightarrow> reachable s'"

text \<open>Several runs in a row; \<open>None\<close> when one of the interactions is not offered.\<close>

fun runs :: "app \<Rightarrow> click list \<Rightarrow> app option" where
  "runs s [] = Some s"
| "runs s (c # cs) = (case main s c of None \<Rightarrow> None | Some s' \<Rightarrow> runs s' cs)"

text \<open>
  What the schema promises of the \<^verbatim>\<open>users\<close> table: \<^verbatim>\<open>id\<close> is its primary key and
  \<^verbatim>\<open>username\<close> is \<^verbatim>\<open>UNIQUE\<close>.
\<close>

definition schema_ok :: "db \<Rightarrow> bool" where
  "schema_ok d \<longleftrightarrow> distinct (map id_u (users d)) \<and> distinct (map username (users d))"

text \<open>The data model's bounds on a workout row.\<close>

definition workout_ok :: "workout \<Rightarrow> bool" where
  "workout_ok w \<longleftrightarrow> 1 \<le> duration w \<and> 0 \<le> calories_burned w"

text \<open>
  The scenarios of the spec, played on the functions above from a fresh database:
  alice signs up and logs a run and a cycle; two users log 500 and 800 calories.
\<close>

definition alice_signed_up :: db where
  "alice_signed_up =
     (case signup init_db ''alice'' ''secret'' ''Alice'' ''alice@example.org'' of
        Inr (m, d) \<Rightarrow> d | Inl e \<Rightarrow> init_db)"

definition alice_two_workouts :: db where
  "alice_two_workouts =
     log_workout (log_workout alice_signed_up 1 ''Running'' 30 300) 1 ''Cycling'' 20 150"

definition two_users :: db where
  "two_users =
     (case signup alice_signed_up ''bob'' ''hunter2'' ''Bob'' ''bob@example.org'' of
        Inr (m, d) \<Rightarrow> log_workout (log_workout d 1 ''Running'' 50 500) 2 ''Yoga'' 60 800
      | Inl e \<Rightarrow> init_db)"

text \<open>After alice's two workouts bob signs up and logs nothing.\<close>

definition bob_idle :: db where
  "bob_idle =
     (case signup alice_two_workouts ''bob'' ''hunter2'' ''Bob'' ''bob@example.org'' of
        Inr (m, d) \<Rightarrow> d | Inl e \<Rightarrow> init_db)"

text \<open>
  alice logs two runs whose calories are 64-bit integers with a sum of \<open>2\<^sup>6\<^sup>3\<close>, one
  more than the largest of them.
\<close>

definition alice_overflow :: db where
  "alice_overflow =
     log_workout (log_workout alice_signed_up 1 ''Running'' 1 9223372036854775807)
       1 ''Running'' 1 1"

text \<open>
  A user whose full name starts with U+0141 (L with stroke, the bytes 0xC5 0x81 in
  UTF-8) signs up and logs nothing.
\<close>

definition lukasz_signed_up :: db where
  "lukasz_signed_up =
     (case signup init_db ''lukasz'' ''secret'' (CHR 0xC5 # CHR 0x81 # ''ukasz'')
             ''lukasz@example.org'' of
        Inr (m, d) \<Rightarrow> d | Inl e \<Rightarrow> init_db)"

section \<open>Facts about the store\<close>

lemma find_username_None:
  "find (\<lambda>u. username u = uname) us = None \<longleftrightarrow> (\<forall>u\<in>set us. username u \<noteq> uname)"
  by (induction us) auto

lemma find_username_Some:
  "distinct (map username us) \<Longrightarrow>
   find (\<lambda>u. username u = uname) us = Some r \<longleftrightarrow> r \<in> set us \<and> username r = uname"
  by (induction us) force+

lemma check_user_None: "check_user d uname = None \<longleftrightarrow> (\<forall>u\<in>set (users d). username u \<noteq> uname)"
  by (simp add: check_user_def find_username_None)

lemma verify_user_cases:
  "verify_user d uname pw =
     (case check_user d uname of
        None \<Rightarrow> Inr None
      | Some u \<Rightarrow> if password u = pw then Inr (Some u) else Inr None)"
  by (simp add: verify_user_def subscript_2_def Let_def split: option.splits)

lemma next_rowid_greater: "i \<in> set ids \<Longrightarrow> i < next_rowid ids"
proof -
  assume "i \<in> set ids"
  then have "i \<le> Max (set (0 # ids))" by simp
  also have "Max (set (0 # ids)) = fold max ids 0" by (rule Max.set_eq_fold)
  finally show ?thesis by (simp add: next_rowid_def)
qed

lemma check_user_Some:
  "distinct (map username (users d)) \<Longrightarrow>
   check_user d uname = Some r \<longleftrightarrow> r \<in> set (users d) \<and> username r = uname"
  by (simp add: check_user_def find_username_Some)

lemma verify_user_Some:
  "verify_user d uname pw = Inr (Some u) \<longleftrightarrow> check_user d uname = Some u \<and> password u = pw"
  by (auto simp: verify_user_cases split: option.splits)

lemma verify_user_None:
  "verify_user d uname pw = Inr None \<longleftrightarrow>
   (\<forall>u. check_user d uname = Some u \<longrightarrow> password u \<noteq> pw)"
  by (simp add: verify_user_cases split: option.splits)

section \<open>Authentication\<close>

text \<open>
  Claim C5. In a store that keeps its schema, \<^verbatim>\<open>verify_user\<close> returns a user row
  exactly when that row is in the \<^verbatim>\<open>users\<close> table, has the given username and
  has a stored password equal, character for character, to the supplied one; when there
  is no such row it returns \<^verbatim>\<open>None\<close>. It never raises.
\<close>

theorem verify_user_iff:
  assumes "schema_ok d"
  shows "(\<forall>u. verify_user d uname pw = Inr (Some u) \<longleftrightarrow>
              u \<in> set (users d) \<and> username u = uname \<and> password u = pw) \<and>
         ((\<nexists>u. u \<in> set (users d) \<and> username u = uname \<and> password u = pw) \<longrightarrow>
              verify_user d uname pw = Inr None)"
proof -
  from assms have dist: "distinct (map username (users d))"
    by (simp add: schema_ok_def)
  have success: "verify_user d uname pw = Inr (Some u) \<longleftrightarrow>
      u \<in> set (users d) \<and> username u = uname \<and> password u = pw" for u
    by (simp add: verify_user_Some check_user_Some [OF dist])
  have failure: "verify_user d uname pw = Inr None"
    if "\<nexists>u. u \<in> set (users d) \<and> username u = uname \<and> password u = pw"
    unfolding verify_user_None check_user_Some [OF dist] using that by blast
  from success failure show ?thesis by blast
qed

text \<open>
  After alice has signed up with the password "secret", that password logs her in and
  "Secret" does not.
\<close>

theorem verify_user_iff_witness:
  "schema_ok alice_signed_up \<and>
   verify_user alice_signed_up ''alice'' ''secret'' =
     Inr (Some \<lparr>id_u = 1, username = ''alice'', password = ''secret'', name = ''Alice'',
                email = ''alice@example.org''\<rparr>) \<and>
   verify_user alice_signed_up ''alice'' ''Secret'' = Inr None"
proof -
  have users: "users alice_signed_up =
      [\<lparr>id_u = 1, username = ''alice'', password = ''secret'', name = ''Alice'',
        email = ''alice@example.org''\<rparr>]"
    by code_simp
  have ok: "schema_ok alice_signed_up"
    by (simp add: schema_ok_def users)
  from verify_user_iff [OF ok, of "''alice''" "''secret''"]
       verify_user_iff [OF ok, of "''alice''" "''Secret''"]
  show ?thesis using ok by (simp add: users)
qed

text \<open>
  Claim C10. For a username that no row of \<^verbatim>\<open>users\<close> carries, \<^verbatim>\<open>check_user\<close>
  finds nothing and \<^verbatim>\<open>verify_user\<close> returns \<^verbatim>\<open>None\<close>, whatever the password: the
  result is a value, not the \<^verbatim>\<open>TypeError\<close> that subscripting the missing row would
  raise.
\<close>

theorem verify_user_absent:
  assumes "\<forall>u\<in>set (users d). username u \<noteq> uname"
  shows "check_user d uname = None \<and> verify_user d uname pw = Inr None"
proof -
  from assms have "check_user d uname = None"
    by (simp add: check_user_None)
  then show ?thesis
    by (simp add: verify_user_cases)
qed

text \<open>With only alice signed up, bob is unknown.\<close>

theorem verify_user_absent_witness:
  "map username (users alice_signed_up) = [''alice''] \<and>
   check_user alice_signed_up ''bob'' = None \<and>
   verify_user alice_signed_up ''bob'' ''secret'' = Inr None"
proof -
  have users: "users alice_signed_up =
      [\<lparr>id_u = 1, username = ''alice'', password = ''secret'', name = ''Alice'',
        email = ''alice@example.org''\<rparr>]"
    by code_simp
  have absent: "\<forall>u\<in>set (users alice_signed_up). username u \<noteq> ''bob''"
    by (simp add: users)
  from verify_user_absent [OF absent, of "''secret''"] show ?thesis by (simp add: users)
qed

text \<open>
  Claim C4. When a row with the username exists, signing up reports
  "Username already exists!" (the spec's DuplicateUsername) and the store is the one it
  was, so the \<^verbatim>\<open>users\<close> table has not grown. When no such row exists, signing up
  reports "Account created!" and the \<^verbatim>\<open>users\<close> table is the old one followed by
  exactly one new row, holding a fresh id and the four values given.
\<close>

theorem signup_duplicate_or_insert:
  "((\<exists>u\<in>set (users d). username u = uname) \<longrightarrow>
      signup d uname pw nm em = Inr (Username_already_exists, d)) \<and>
   (\<not> (\<exists>u\<in>set (users d). username u = uname) \<longrightarrow>
      signup d uname pw nm em =
        Inr (Account_created,
             d\<lparr>users := users d @
                [\<lparr>id_u = next_rowid (map id_u (users d)), username = uname,
                  password = pw, name = nm, email = em\<rparr>]\<rparr>))"
  by (auto simp: signup_def add_user_def check_user_None)

text \<open>A second alice is refused; the first alice, on a fresh database, is inserted with id 1.\<close>

theorem signup_duplicate_or_insert_witness:
  "signup alice_signed_up ''alice'' ''other'' ''Alice B'' ''ab@example.org'' =
     Inr (Username_already_exists, alice_signed_up) \<and>
   signup init_db ''alice'' ''secret'' ''Alice'' ''alice@example.org'' =
     Inr (Account_created,
          init_db\<lparr>users := [\<lparr>id_u = 1, username = ''alice'', password = ''secret'',
                              name = ''Alice'', email = ''alice@example.org''\<rparr>]\<rparr>)"
proof -
  have users: "users alice_signed_up =
      [\<lparr>id_u = 1, username = ''alice'', password = ''secret'', name = ''Alice'',
        email = ''alice@example.org''\<rparr>]"
    by code_simp
  have empty: "users init_db = []"
    by (simp add: init_db_def)
  from signup_duplicate_or_insert [of alice_signed_up "''alice''" "''other''" "''Alice B''" "''ab@example.org''"]
       signup_duplicate_or_insert [of init_db "''alice''" "''secret''" "''Alice''" "''alice@example.org''"]
  show ?thesis by (simp add: users empty next_rowid_def)
qed

section \<open>Challenges\<close>

text \<open>
  Claim C7. \<^verbatim>\<open>join_challenge\<close> appends exactly one row with the given user id and
  challenge id to \<^verbatim>\<open>challenge_participants\<close>, whatever the store holds: the table
  grows by one, the number of rows equal to the new one grows by one (so a second join
  adds a second, identical row), and the other tables are left alone. On a fresh
  database, which has no challenge at all, joining challenge 7 twice leaves two equal
  rows.
\<close>

theorem join_challenge_inserts:
  "challenge_participants (join_challenge d uid cid) =
     challenge_participants d @ [\<lparr>user_id_p = uid, challenge_id = cid\<rparr>] \<and>
   length (challenge_participants (join_challenge d uid cid)) =
     Suc (length (challenge_participants d)) \<and>
   count_list (challenge_participants (join_challenge d uid cid))
       \<lparr>user_id_p = uid, challenge_id = cid\<rparr> =
     Suc (count_list (challenge_participants d) \<lparr>user_id_p = uid, challenge_id = cid\<rparr>) \<and>
   users (join_challenge d uid cid) = users d \<and>
   workouts (join_challenge d uid cid) = workouts d \<and>
   challenges (join_challenge d uid cid) = challenges d \<and>
   challenges init_db = [] \<and>
   challenge_participants (join_challenge (join_challenge init_db 1 7) 1 7) =
     [\<lparr>user_id_p = 1, challenge_id = 7\<rparr>, \<lparr>user_id_p = 1, challenge_id = 7\<rparr>]"
  by (simp add: join_challenge_def init_db_def)

section \<open>Password reset\<close>

text \<open>
  Claim C8. \<^verbatim>\<open>reset_password\<close> keeps the number and the order of the user rows. A row
  whose username matches gets the new password and keeps its id, username, name and
  email; a row whose username differs is unchanged. The tables \<^verbatim>\<open>workouts\<close>,
  \<^verbatim>\<open>challenges\<close> and \<^verbatim>\<open>challenge_participants\<close> are unchanged. The function
  makes no check of its own.
\<close>

theorem reset_password_frame:
  "length (users (reset_password d uname new_password)) = length (users d) \<and>
   (\<forall>i<length (users d).
      (username (users d ! i) = uname \<longrightarrow>
         password (users (reset_password d uname new_password) ! i) = new_password \<and>
         id_u (users (reset_password d uname new_password) ! i) = id_u (users d ! i) \<and>
         username (users (reset_password d uname new_password) ! i) = username (users d ! i) \<and>
         name (users (reset_password d uname new_password) ! i) = name (users d ! i) \<and>
         email (users (reset_password d uname new_password) ! i) = email (users d ! i)) \<and>
      (username (users d ! i) \<noteq> uname \<longrightarrow>
         users (reset_password d uname new_password) ! i = users d ! i)) \<and>
   workouts (reset_password d uname new_password) = workouts d \<and>
   challenges (reset_password d uname new_password) = challenges d \<and>
   challenge_participants (reset_password d uname new_password) = challenge_participants d"
  by (simp add: reset_password_def)

text \<open>With alice and bob in the store, resetting alice's password changes that one field.\<close>

theorem reset_password_frame_witness:
  "users (reset_password two_users ''alice'' ''new'') =
     [\<lparr>id_u = 1, username = ''alice'', password = ''new'', name = ''Alice'',
       email = ''alice@example.org''\<rparr>,
      \<lparr>id_u = 2, username = ''bob'', password = ''hunter2'', name = ''Bob'',
       email = ''bob@example.org''\<rparr>] \<and>
   workouts (reset_password two_users ''alice'' ''new'') = workouts two_users"
proof -
  have users: "users two_users =
     [\<lparr>id_u = 1, username = ''alice'', password = ''secret'', name = ''Alice'',
       email = ''alice@example.org''\<rparr>,
      \<lparr>id_u = 2, username = ''bob'', password = ''hunter2'', name = ''Bob'',
       email = ''bob@example.org''\<rparr>]"
    by code_simp
  have len: "length (users (reset_password two_users ''alice'' ''new'')) = 2"
    using reset_password_frame [of two_users "''alice''" "''new''"] by (simp add: users)
  then obtain a b where ab: "users (reset_password two_users ''alice'' ''new'') = [a, b]"
    by (auto simp: length_Suc_conv numeral_2_eq_2)
  have a: "a = \<lparr>id_u = 1, username = ''alice'', password = ''new'', name = ''Alice'',
       email = ''alice@example.org''\<rparr>"
    using reset_password_frame [of two_users "''alice''" "''new''", THEN conjunct2, THEN conjunct1,
        rule_format, of 0]
    by (simp add: users ab)
  have b: "b = \<lparr>id_u = 2, username = ''bob'', password = ''hunter2'', name = ''Bob'',
       email = ''bob@example.org''\<rparr>"
    using reset_password_frame [of two_users "''alice''" "''new''", THEN conjunct2, THEN conjunct1,
        rule_format, of 1]
    by (simp add: users ab)
  show ?thesis
    using reset_password_frame [of two_users "''alice''" "''new''"] by (simp add: ab a b)
qed

section \<open>Invariants of the reachable states\<close>

lemma reachable_runs: "reachable s \<Longrightarrow> runs s cs = Some s' \<Longrightarrow> reachable s'"
proof (induction cs arbitrary: s)
  case Nil
  then show ?case by simp
next
  case (Cons c cs)
  from Cons.prems(2) obtain s1 where s1: "main s c = Some s1" "runs s1 cs = Some s'"
    by (auto split: option.splits)
  from Cons.prems(1) s1(1) have "reachable s1" by (rule reachable.run)
  with s1(2) show ?case by (rule Cons.IH [rotated])
qed

lemma signup_workouts: "signup d uname pw nm em = Inr (m, d') \<Longrightarrow> workouts d' = workouts d"
  by (auto simp: signup_def add_user_def split: if_splits sum.splits)

lemma forgot_password_workouts:
  "workouts (snd (forgot_password d uname new_password confirm_password)) = workouts d"
  by (simp add: forgot_password_def reset_password_def)

lemma challenge_page_workouts: "challenge_page d uid b = Some (m, d') \<Longrightarrow> workouts d' = workouts d"
  by (auto simp: challenge_page_def create_challenge_def join_challenge_def
      split: challenge_button.splits option.splits prod.splits)

lemma workout_page_Some:
  "workout_page d uid wtype dur cal = Some (m, d') \<Longrightarrow>
   wtype \<in> set workout_types \<and> 1 \<le> dur \<and> 0 \<le> cal \<and> m = Workout_logged wtype \<and>
   d' = log_workout d uid wtype dur cal"
  by (auto simp: workout_page_def selectbox_def number_input_def split: option.splits if_splits)

lemma log_workout_workouts:
  "workouts (log_workout d uid wtype dur cal) =
   workouts d @ [\<lparr>id_w = next_rowid (map id_w (workouts d)), user_id = uid,
                  workout_type = wtype, duration = dur, calories_burned = cal\<rparr>]"
  by (simp add: log_workout_def)

lemma main_workouts:
  assumes "main s c = Some s'"
  shows "workouts (store s') = workouts (store s) \<or>
         (\<exists>uid wtype dur cal. 1 \<le> dur \<and> 0 \<le> cal \<and>
            store s' = log_workout (store s) uid wtype dur cal)"
proof (cases "logged_in s")
  case False
  with assms show ?thesis
    by (cases c)
       (auto simp: main_def forgot_password_workouts dest: signup_workouts
          split: sum.splits prod.splits option.splits)
next
  case True
  with assms obtain usr where usr: "session_user s = Some usr"
    by (cases "session_user s") (simp_all add: main_def)
  show ?thesis
  proof (cases c)
    case (Log_Workout_button wtype dur cal)
    with assms True usr obtain m d' where
      page: "workout_page (store s) (id_u usr) wtype dur cal = Some (m, d')" and s': "s' = s\<lparr>store := d'\<rparr>"
      by (auto simp: main_def)
    from workout_page_Some [OF page] s' show ?thesis by auto
  next
    case (Challenge_button b)
    with assms True usr obtain m d' where
      page: "challenge_page (store s) (id_u usr) b = Some (m, d')" and s': "s' = s\<lparr>store := d'\<rparr>"
      by (auto simp: main_def)
    from challenge_page_workouts [OF page] s' show ?thesis by simp
  qed (use assms True usr in \<open>auto simp: main_def split: if_splits\<close>)
qed

lemma main_preserves_workout_ok:
  assumes "\<forall>w\<in>set (workouts (store s)). workout_ok w" and "main s c = Some s'"
  shows "\<forall>w\<in>set (workouts (store s')). workout_ok w"
  using main_workouts [OF assms(2)] assms(1)
  by (auto simp: log_workout_workouts workout_ok_def)

lemma reachable_workout_ok: "reachable s \<Longrightarrow> \<forall>w\<in>set (workouts (store s)). workout_ok w"
proof (induction rule: reachable.induct)
  case start
  show ?case by (simp add: init_app_def init_db_def)
next
  case (run s c s')
  then show ?case by (blast intro: main_preserves_workout_ok [rule_format])
qed


text \<open>Every run keeps the schema of the \<^verbatim>\<open>users\<close> table, so every reachable store has it.\<close>

lemma add_user_schema_ok:
  assumes "schema_ok d" and "add_user d uname pw nm em = Inr d'"
  shows "schema_ok d'"
proof -
  from assms(2) have fresh: "uname \<notin> set (map username (users d))"
    and d': "d' = d\<lparr>users := users d @
             [\<lparr>id_u = next_rowid (map id_u (users d)), username = uname,
               password = pw, name = nm, email = em\<rparr>]\<rparr>"
    by (auto simp: add_user_def split: if_splits)
  have "next_rowid (map id_u (users d)) \<notin> set (map id_u (users d))"
    using next_rowid_greater [of "next_rowid (map id_u (users d))" "map id_u (users d)"]
    by auto
  with assms(1) fresh show ?thesis
    by (simp add: schema_ok_def d')
qed

lemma signup_schema_ok:
  "schema_ok d \<Longrightarrow> signup d uname pw nm em = Inr (m, d') \<Longrightarrow> schema_ok d'"
  by (auto simp: signup_def split: if_splits sum.splits dest: add_user_schema_ok)

lemma reset_password_schema_ok: "schema_ok d \<Longrightarrow> schema_ok (reset_password d uname new_password)"
proof -
  have "map id_u (users (reset_password d uname new_password)) = map id_u (users d)"
    and "map username (users (reset_password d uname new_password)) = map username (users d)"
    by (simp_all add: reset_password_def)
  then show "schema_ok d \<Longrightarrow> schema_ok (reset_password d uname new_password)"
    by (simp add: schema_ok_def)
qed

lemma forgot_password_schema_ok:
  "schema_ok d \<Longrightarrow> schema_ok (snd (forgot_password d uname new_password confirm_password))"
  by (simp add: forgot_password_def reset_password_schema_ok)

lemma workout_page_users: "workout_page d uid wtype dur cal = Some (m, d') \<Longrightarrow> users d' = users d"
  by (auto dest!: workout_page_Some simp: log_workout_def)

lemma challenge_page_users: "challenge_page d uid b = Some (m, d') \<Longrightarrow> users d' = users d"
  by (auto simp: challenge_page_def create_challenge_def join_challenge_def
      split: challenge_button.splits option.splits prod.splits)

lemma main_schema_ok:
  assumes "schema_ok (store s)" and "main s c = Some s'"
  shows "schema_ok (store s')"
proof (cases "logged_in s")
  case False
  with assms show ?thesis
    by (cases c)
       (auto simp: main_def forgot_password_schema_ok dest: signup_schema_ok
          split: sum.splits prod.splits option.splits)
next
  case True
  with assms obtain usr where usr: "session_user s = Some usr"
    by (cases "session_user s") (simp_all add: main_def)
  show ?thesis
  proof (cases c)
    case (Log_Workout_button wtype dur cal)
    with assms True usr obtain m d' where
      page: "workout_page (store s) (id_u usr) wtype dur cal = Some (m, d')" and s': "s' = s\<lparr>store := d'\<rparr>"
      by (auto simp: main_def)
    from workout_page_users [OF page] s' assms(1) show ?thesis by (simp add: schema_ok_def)
  next
    case (Challenge_button b)
    with assms True usr obtain m d' where
      page: "challenge_page (store s) (id_u usr) b = Some (m, d')" and s': "s' = s\<lparr>store := d'\<rparr>"
      by (auto simp: main_def)
    from challenge_page_users [OF page] s' assms(1) show ?thesis by (simp add: schema_ok_def)
  qed (use assms True usr in \<open>auto simp: main_def split: if_splits\<close>)
qed

lemma reachable_schema_ok: "reachable s \<Longrightarrow> schema_ok (store s)"
proof (induction rule: reachable.induct)
  case start
  show ?case by (simp add: init_app_def init_db_def schema_ok_def)
next
  case (run s c s')
  then show ?case by (blast intro: main_schema_ok)
qed

text \<open>
  Claim C6. In every state the application reaches from a fresh database, every row of
  \<^verbatim>\<open>workouts\<close> has a duration of at least 1 and calories of at least 0, and every
  run of the main script keeps it so. Rows are created only by the Log Workout page,
  whose number inputs hold no value below 1 and 0: whenever the page logs a workout,
  the values it hands to \<^verbatim>\<open>log_workout\<close> meet the bounds, and with such values
  \<^verbatim>\<open>log_workout\<close> keeps the bounds of the table. \<^verbatim>\<open>log_workout\<close> itself checks
  nothing and inserts the row with the values as given.
\<close>

theorem workouts_invariant:
  "(reachable s \<longrightarrow> (\<forall>w\<in>set (workouts (store s)). workout_ok w)) \<and>
   ((\<forall>w\<in>set (workouts (store s)). workout_ok w) \<and> main s c = Some s' \<longrightarrow>
      (\<forall>w\<in>set (workouts (store s')). workout_ok w)) \<and>
   (workout_page d uid wtype dur cal = Some (m, d') \<longrightarrow>
      1 \<le> dur \<and> 0 \<le> cal \<and> d' = log_workout d uid wtype dur cal) \<and>
   ((\<forall>w\<in>set (workouts d). workout_ok w) \<and> 1 \<le> dur \<and> 0 \<le> cal \<longrightarrow>
      (\<forall>w\<in>set (workouts (log_workout d uid wtype dur cal)). workout_ok w)) \<and>
   workouts (log_workout d uid wtype dur cal) =
     workouts d @ [\<lparr>id_w = next_rowid (map id_w (workouts d)), user_id = uid,
                    workout_type = wtype, duration = dur, calories_burned = cal\<rparr>]"
proof -
  have given: "\<forall>w\<in>set (workouts (log_workout d uid wtype dur cal)). workout_ok w"
    if "\<forall>w\<in>set (workouts d). workout_ok w" and "1 \<le> dur" and "0 \<le> cal"
    using that by (auto simp: log_workout_workouts workout_ok_def)
  from reachable_workout_ok [of s] main_preserves_workout_ok [of s c s']
    workout_page_Some [of d uid wtype dur cal m d'] given
    log_workout_workouts [of d uid wtype dur cal]
  show ?thesis by blast
qed

text \<open>
  alice signs up, logs in and logs a run of 30 minutes: the state is reached and its
  row is within the bounds. A duration of 0 is not a value the page can hold.
\<close>

theorem workouts_invariant_witness:
  "runs init_app
     [Sign_Up_button ''alice'' ''secret'' ''Alice'' ''alice@example.org'',
      Login_button ''alice'' ''secret'',
      Log_Workout_button ''Running'' 30 300] =
     Some \<lparr>store = log_workout alice_signed_up 1 ''Running'' 30 300, logged_in = True,
            session_user = Some \<lparr>id_u = 1, username = ''alice'', password = ''secret'',
                                  name = ''Alice'', email = ''alice@example.org''\<rparr>\<rparr> \<and>
   workouts (log_workout alice_signed_up 1 ''Running'' 30 300) =
     [\<lparr>id_w = 1, user_id = 1, workout_type = ''Running'', duration = 30,
       calories_burned = 300\<rparr>] \<and>
   list_all workout_ok (workouts (log_workout alice_signed_up 1 ''Running'' 30 300)) \<and>
   main \<lparr>store = alice_signed_up, logged_in = True,
         session_user = Some \<lparr>id_u = 1, username = ''alice'', password = ''secret'',
                               name = ''Alice'', email = ''alice@example.org''\<rparr>\<rparr>
     (Log_Workout_button ''Running'' 0 300) = None"
proof -
  let ?alice = "\<lparr>id_u = 1, username = ''alice'', password = ''secret'',
                 name = ''Alice'', email = ''alice@example.org''\<rparr>"
  let ?s = "\<lparr>store = log_workout alice_signed_up 1 ''Running'' 30 300, logged_in = True,
             session_user = Some ?alice\<rparr>"
  have r: "runs init_app
     [Sign_Up_button ''alice'' ''secret'' ''Alice'' ''alice@example.org'',
      Login_button ''alice'' ''secret'',
      Log_Workout_button ''Running'' 30 300] = Some ?s"
    by code_simp
  have "reachable ?s"
    using reachable.start r by (rule reachable_runs)
  with workouts_invariant [of ?s]
  have ok: "\<forall>w\<in>set (workouts (log_workout alice_signed_up 1 ''Running'' 30 300)). workout_ok w"
    by simp
  have w: "workouts (log_workout alice_signed_up 1 ''Running'' 30 300) =
     [\<lparr>id_w = 1, user_id = 1, workout_type = ''Running'', duration = 30,
       calories_burned = 300\<rparr>]"
    by code_simp
  have refused: "main \<lparr>store = alice_signed_up, logged_in = True, session_user = Some ?alice\<rparr>
     (Log_Workout_button ''Running'' 0 300) = None"
    by code_simp
  from r ok w refused show ?thesis
    by (simp add: list_all_iff)
qed

section \<open>The report\<close>

lemma int64_id: "in_int64 i \<Longrightarrow> int64 i = i"
  by (simp add: in_int64_def int64_def)

lemma Series_sum_exact: "in_int64 (sum_list col) \<Longrightarrow> Series_sum col = sum_list col"
  by (simp add: Series_sum_def int64_id)

lemma Series_sum_Nil: "Series_sum [] = 0"
  by (simp add: Series_sum_def int64_def)

lemma latin_1_append: "latin_1 (a @ b) \<longleftrightarrow> latin_1 a \<and> latin_1 b"
  by (simp add: latin_1_def)

lemma latin_1_Cons: "latin_1 (c # cs) \<longleftrightarrow> (of_char c :: nat) < 196 \<and> latin_1 cs"
  by (simp add: latin_1_def)

lemma latin_1_Nil: "latin_1 []"
  by (simp add: latin_1_def)

lemma str_nat_0: "str_nat 0 = ''0''"
  by (simp add: str_nat.simps digit_def)

text \<open>
  Claim C3, as the code has it. For a user id that a row of \<^verbatim>\<open>users\<close> carries and
  no row of \<^verbatim>\<open>workouts\<close> refers to, \<^verbatim>\<open>generate_report\<close> takes the first user row
  with that id. When the name, the username and the email of that row have a Latin-1
  encoding, it raises nothing and gives the document: the title, the three identity
  lines, the lines "Total Workouts: 0", "Total Duration: 0 min" and
  "Total Calories Burned: 0", and the heading "Workout Log:" with no line after it.
  When one of the three has a code point above U+00FF, it raises
  \<^verbatim>\<open>UnicodeEncodeError\<close> and there is no document.
\<close>

theorem generate_report_no_workouts:
  assumes "u \<in> set (users d)" and "id_u u = uid"
    and "\<forall>w\<in>set (workouts d). user_id w \<noteq> uid"
  shows "\<exists>u'. u' \<in> set (users d) \<and> id_u u' = uid \<and>
     generate_report d uid =
       (if latin_1 (name u') \<and> latin_1 (username u') \<and> latin_1 (email u')
        then Inr \<lparr>filepath = ''fitness_report_user_'' @ str_int uid @ ''.pdf'',
                  pdf = [Cell ''Fitness Report'' ''C'', Ln 10,
                         Cell (''Name: '' @ name u') [],
                         Cell (''Username: '' @ username u') [],
                         Cell (''Email: '' @ email u') [],
                         Ln 10,
                         Cell ''Total Workouts: 0'' [],
                         Cell ''Total Duration: 0 min'' [],
                         Cell ''Total Calories Burned: 0'' [],
                         Ln 10,
                         Cell ''Workout Log:'' [],
                         Ln 5]\<rparr>
        else Inl UnicodeEncodeError)"
proof -
  from assms(1,2) obtain u' where found: "find (\<lambda>u. id_u u = uid) (users d) = Some u'"
    by (cases "find (\<lambda>u. id_u u = uid) (users d)") (auto simp: find_None_iff)
  then have u': "u' \<in> set (users d)" "id_u u' = uid"
    by (auto simp: find_Some_iff)
  from assms(3) have empty: "select_workouts d uid = []"
    by (simp add: select_workouts_def filter_empty_conv)
  have "generate_report d uid =
       (if latin_1 (name u') \<and> latin_1 (username u') \<and> latin_1 (email u')
        then Inr \<lparr>filepath = ''fitness_report_user_'' @ str_int uid @ ''.pdf'',
                  pdf = [Cell ''Fitness Report'' ''C'', Ln 10,
                         Cell (''Name: '' @ name u') [],
                         Cell (''Username: '' @ username u') [],
                         Cell (''Email: '' @ email u') [],
                         Ln 10,
                         Cell ''Total Workouts: 0'' [],
                         Cell ''Total Duration: 0 min'' [],
                         Cell ''Total Calories Burned: 0'' [],
                         Ln 10,
                         Cell ''Workout Log:'' [],
                         Ln 5]\<rparr>
        else Inl UnicodeEncodeError)"
    by (simp add: generate_report_def found empty col_Duration_def col_Calories_def
        Series_sum_Nil str_int_def str_nat_0 encodable_def latin_1_Cons latin_1_Nil)
  with u' show ?thesis by blast
qed

text \<open>The report of alice, who has signed up and logged nothing.\<close>

theorem generate_report_no_workouts_witness:
  "generate_report alice_signed_up 1 =
     Inr \<lparr>filepath = ''fitness_report_user_1.pdf'',
          pdf = [Cell ''Fitness Report'' ''C'', Ln 10,
                 Cell ''Name: Alice'' [],
                 Cell ''Username: alice'' [],
                 Cell ''Email: alice@example.org'' [],
                 Ln 10,
                 Cell ''Total Workouts: 0'' [],
                 Cell ''Total Duration: 0 min'' [],
                 Cell ''Total Calories Burned: 0'' [],
                 Ln 10,
                 Cell ''Workout Log:'' [],
                 Ln 5]\<rparr>"
proof -
  have db: "alice_signed_up =
     \<lparr>users = [\<lparr>id_u = 1, username = ''alice'', password = ''secret'', name = ''Alice'',
                email = ''alice@example.org''\<rparr>],
      workouts = [], challenges = [], challenge_participants = []\<rparr>"
    by code_simp
  have one: "str_int 1 = ''1''"
    by (simp add: str_int_def str_nat.simps digit_def)
  from generate_report_no_workouts [of "\<lparr>id_u = 1, username = ''alice'', password = ''secret'',
      name = ''Alice'', email = ''alice@example.org''\<rparr>" alice_signed_up 1]
  show ?thesis by (simp add: db one latin_1_def)
qed

text \<open>
  Claim C3 as stated speaks of every existing user without workouts. It fails for a
  user whose full name is spelt with U+0141: the user exists, has no workout row, and
  the report raises.
\<close>

theorem generate_report_latin_1_counterexample:
  "map id_u (users lukasz_signed_up) = [1] \<and>
   map name (users lukasz_signed_up) = [CHR 0xC5 # CHR 0x81 # ''ukasz''] \<and>
   workouts lukasz_signed_up = [] \<and>
   generate_report lukasz_signed_up 1 = Inl UnicodeEncodeError"
  by code_simp

section \<open>The leaderboard\<close>

lemma filter_username_unique:
  "distinct (map username us) \<Longrightarrow> u \<in> set us \<Longrightarrow>
   filter (\<lambda>u'. username u' = username u) us = [u]"
proof (induction us)
  case Nil
  then show ?case by simp
next
  case (Cons a us)
  show ?case
  proof (cases "a = u")
    case True
    with Cons.prems have notin: "username u \<notin> username ` set us"
      by simp
    have "username u' \<noteq> username u" if "u' \<in> set us" for u'
    proof -
      from that have "username u' \<in> username ` set us" by (rule imageI)
      with notin show ?thesis by auto
    qed
    then have "filter (\<lambda>u'. username u' = username u) us = []"
      by (simp add: filter_empty_conv)
    with True show ?thesis by simp
  next
    case False
    with Cons.prems have "u \<in> set us" "username a \<noteq> username u"
      by auto
    with Cons show ?thesis by simp
  qed
qed

lemma joined_rows_of_user:
  assumes "distinct (map username us)" and "u \<in> set us"
  shows "filter (\<lambda>r. fst r = username u)
           (map (\<lambda>u'. (username u', c)) (filter (\<lambda>u'. i = id_u u') us)) =
         (if i = id_u u then [(username u, c)] else [])"
proof -
  have "filter (\<lambda>r. fst r = username u)
           (map (\<lambda>u'. (username u', c)) (filter (\<lambda>u'. i = id_u u') us)) =
        map (\<lambda>u'. (username u', c))
          (filter (\<lambda>u'. i = id_u u') (filter (\<lambda>u'. username u' = username u) us))"
    by (simp add: filter_map comp_def conj_commute)
  also have "\<dots> = (if i = id_u u then [(username u, c)] else [])"
    by (simp add: filter_username_unique [OF assms])
  finally show ?thesis .
qed

lemma JOIN_total_of_user:
  assumes "distinct (map username (users d))" and "u \<in> set (users d)"
  shows "sum_list (map snd (filter (\<lambda>r. fst r = username u) (workouts_JOIN_users d))) =
         sum_list (map calories_burned (filter (\<lambda>w. user_id w = id_u u) (workouts d)))"
proof -
  have "sum_list (map snd (filter (\<lambda>r. fst r = username u)
          (concat (map (\<lambda>w. map (\<lambda>u'. (username u', calories_burned w))
                                (filter (\<lambda>u'. user_id w = id_u u') (users d))) ws)))) =
        sum_list (map calories_burned (filter (\<lambda>w. user_id w = id_u u) ws))" for ws
    by (induction ws) (simp_all add: joined_rows_of_user [OF assms])
  then show ?thesis
    by (simp add: workouts_JOIN_users_def)
qed

lemma JOIN_usernames:
  "fst ` set (workouts_JOIN_users d) =
   {username u | u. u \<in> set (users d) \<and> (\<exists>w\<in>set (workouts d). user_id w = id_u u)}"
proof -
  have "fst ` set (workouts_JOIN_users d) =
        (\<Union>w\<in>set (workouts d). username ` {u \<in> set (users d). user_id w = id_u u})"
    by (simp add: workouts_JOIN_users_def image_UN image_image)
  also have "\<dots> = {username u | u. u \<in> set (users d) \<and> (\<exists>w\<in>set (workouts d). user_id w = id_u u)}"
    by blast
  finally show ?thesis .
qed


lemma SUM_from_Inr: "SUM_from a xs = Inr t \<Longrightarrow> t = a + sum_list xs"
proof (induction xs arbitrary: a)
  case Nil
  then show ?case by simp
next
  case (Cons x xs)
  from Cons.prems have "SUM_from (a + x) xs = Inr t"
    by (simp split: if_splits)
  from Cons.IH [OF this] show ?case by simp
qed

lemma SUM_from_error: "SUM_from a xs = Inl e \<Longrightarrow> e = OperationalError"
proof (induction xs arbitrary: a)
  case Nil
  then show ?case by simp
next
  case (Cons x xs)
  show ?case
  proof (cases "in_int64 (a + x)")
    case True
    with Cons.prems have "SUM_from (a + x) xs = Inl e" by simp
    then show ?thesis by (rule Cons.IH)
  next
    case False
    with Cons.prems show ?thesis by simp
  qed
qed

lemma SUM_from_in_range: "in_int64 a \<Longrightarrow> SUM_from a xs = Inr t \<Longrightarrow> in_int64 t"
proof (induction xs arbitrary: a)
  case Nil
  then show ?case by simp
next
  case (Cons x xs)
  from Cons.prems(2) have "in_int64 (a + x)" and "SUM_from (a + x) xs = Inr t"
    by (simp_all split: if_splits)
  then show ?case by (rule Cons.IH)
qed

lemma SUM_from_nonneg:
  "0 \<le> a \<Longrightarrow> \<forall>x\<in>set xs. 0 \<le> x \<Longrightarrow> in_int64 (a + sum_list xs) \<Longrightarrow>
   SUM_from a xs = Inr (a + sum_list xs)"
proof (induction xs arbitrary: a)
  case Nil
  then show ?case by simp
next
  case (Cons x xs)
  from Cons.prems have x: "0 \<le> x" and rest: "\<forall>y\<in>set xs. 0 \<le> y"
    by simp_all
  from rest have "0 \<le> sum_list xs"
    by (simp add: sum_list_nonneg)
  with Cons.prems(1,3) x have step: "in_int64 (a + x)"
    by (simp add: in_int64_def)
  from Cons.prems(1) x have "0 \<le> a + x" by simp
  from Cons.IH [OF this rest] Cons.prems(3) step show ?case
    by (simp add: add.assoc)
qed

lemma SUM_sqlite_Inr:
  assumes "SUM_sqlite xs = Inr t"
  shows "t = sum_list xs" and "in_int64 (sum_list xs)"
proof -
  from assms have run: "SUM_from 0 xs = Inr t"
    by (simp add: SUM_sqlite_def)
  from SUM_from_Inr [OF run] show t: "t = sum_list xs"
    by simp
  have "in_int64 0"
    by (simp add: in_int64_def)
  from SUM_from_in_range [OF this run] t show "in_int64 (sum_list xs)"
    by simp
qed

lemma SUM_sqlite_overflow: "\<not> in_int64 (sum_list xs) \<Longrightarrow> SUM_sqlite xs = Inl OperationalError"
proof (cases "SUM_sqlite xs")
  case (Inl e)
  then show ?thesis
    using SUM_from_error [of 0 xs e] by (simp add: SUM_sqlite_def)
next
  case (Inr t)
  have "in_int64 (sum_list xs)" by (rule SUM_sqlite_Inr(2) [OF Inr])
  moreover assume "\<not> in_int64 (sum_list xs)"
  ultimately show ?thesis by blast
qed

lemma SUM_sqlite_nonneg:
  "\<forall>x\<in>set xs. 0 \<le> x \<Longrightarrow> in_int64 (sum_list xs) \<Longrightarrow> SUM_sqlite xs = Inr (sum_list xs)"
  using SUM_from_nonneg [of 0 xs] by (simp add: SUM_sqlite_def)

lemma collect_map_Inr: "collect (map Inr vs) = Inr vs"
  by (induction vs) simp_all

lemma collect_Inr_D: "collect xs = Inr vs \<Longrightarrow> xs = map Inr vs"
proof (induction xs arbitrary: vs)
  case Nil
  then show ?case by simp
next
  case (Cons x xs)
  from Cons.prems obtain v vs' where x: "x = Inr v" and rest: "collect xs = Inr vs'"
    and vs: "vs = v # vs'"
    by (auto split: sum.splits)
  from Cons.IH [OF rest] x vs show ?case by simp
qed

lemma collect_Inr: "collect xs = Inr vs \<longleftrightarrow> xs = map Inr vs"
  using collect_Inr_D [of xs vs] collect_map_Inr [of vs] by blast

lemma collect_Inl: "collect xs = Inl e \<Longrightarrow> Inl e \<in> set xs"
  by (induction xs) (auto split: sum.splits)

lemma collect_cases: "(\<exists>vs. collect xs = Inr vs) \<or> (\<exists>e. collect xs = Inl e \<and> Inl e \<in> set xs)"
  by (cases "collect xs") (auto dest: collect_Inl)


lemma grouped_Inr:
  "map (\<lambda>k. case SUM_sqlite (grp k) of Inl e \<Rightarrow> Inl e | Inr t \<Rightarrow> Inr (k, t)) ks = map Inr vs \<Longrightarrow>
   vs = map (\<lambda>k. (k, sum_list (grp k))) ks \<and> (\<forall>k\<in>set ks. in_int64 (sum_list (grp k)))"
proof (induction ks arbitrary: vs)
  case Nil
  then show ?case by simp
next
  case (Cons k ks)
  from Cons.prems obtain v vs' where vs: "vs = v # vs'"
    and head: "(case SUM_sqlite (grp k) of Inl e \<Rightarrow> Inl e | Inr t \<Rightarrow> Inr (k, t)) = Inr v"
    and rest: "map (\<lambda>k. case SUM_sqlite (grp k) of Inl e \<Rightarrow> Inl e | Inr t \<Rightarrow> Inr (k, t)) ks
                 = map Inr vs'"
    by (cases vs) auto
  from head obtain t where t: "SUM_sqlite (grp k) = Inr t" and v: "v = (k, t)"
    by (auto split: sum.splits)
  from SUM_sqlite_Inr [OF t] v have "v = (k, sum_list (grp k))" "in_int64 (sum_list (grp k))"
    by simp_all
  with Cons.IH [OF rest] vs show ?case by simp
qed

lemma grouped_produces:
  "\<forall>k\<in>set ks. SUM_sqlite (grp k) = Inr (sum_list (grp k)) \<Longrightarrow>
   collect (map (\<lambda>k. case SUM_sqlite (grp k) of Inl e \<Rightarrow> Inl e | Inr t \<Rightarrow> Inr (k, t)) ks) =
   Inr (map (\<lambda>k. (k, sum_list (grp k))) ks)"
  by (induction ks) simp_all

lemma grouped_error:
  assumes "k \<in> set ks" and "SUM_sqlite (grp k) = Inl OperationalError"
  shows "collect (map (\<lambda>k. case SUM_sqlite (grp k) of Inl e \<Rightarrow> Inl e | Inr t \<Rightarrow> Inr (k, t)) ks) =
         Inl OperationalError"
proof (cases "collect (map (\<lambda>k. case SUM_sqlite (grp k) of Inl e \<Rightarrow> Inl e | Inr t \<Rightarrow> Inr (k, t)) ks)")
  case (Inl e)
  from collect_Inl [OF Inl] obtain k' where
    "(case SUM_sqlite (grp k') of Inl e \<Rightarrow> Inl e | Inr t \<Rightarrow> Inr (k', t)) = Inl e"
    by auto
  then have "SUM_sqlite (grp k') = Inl e"
    by (auto split: sum.splits)
  then have "e = OperationalError"
    using SUM_from_error [of 0 "grp k'" e] by (simp add: SUM_sqlite_def)
  with Inl show ?thesis by simp
next
  case (Inr vs)
  let ?f = "\<lambda>k. case SUM_sqlite (grp k) of Inl e \<Rightarrow> Inl e | Inr t \<Rightarrow> Inr (k, t)"
  from collect_Inr_D [OF Inr] have "set (map ?f ks) = set (map Inr vs)"
    by simp
  moreover from assms(1) have "?f k \<in> set (map ?f ks)"
    by simp
  ultimately have "?f k \<in> set (map Inr vs)"
    by simp
  then obtain v where "?f k = Inr v"
    by auto
  with assms(2) show ?thesis by simp
qed


lemma GROUP_BY_Inr:
  assumes "GROUP_BY_username_SUM rows = Inr groups"
  shows "groups = map (\<lambda>k. (k, sum_list (map snd (filter (\<lambda>r. fst r = k) rows))))
                      (rev (sort (remdups (map fst rows))))"
  using grouped_Inr [OF collect_Inr_D [OF assms [unfolded GROUP_BY_username_SUM_def]]]
  by simp

lemma leaderboard_Inr:
  assumes "leaderboard d = Inr rows"
  shows "rows = sort_key (\<lambda>r. - snd r)
           (map (\<lambda>k. (k, sum_list (map snd (filter (\<lambda>r. fst r = k) (workouts_JOIN_users d)))))
                (rev (sort (remdups (map fst (workouts_JOIN_users d))))))"
proof -
  from assms obtain groups where groups: "GROUP_BY_username_SUM (workouts_JOIN_users d) = Inr groups"
    and rows: "rows = ORDER_BY_total_calories_DESC groups"
    by (auto simp: leaderboard_def split: sum.splits)
  from GROUP_BY_Inr [OF groups] rows show ?thesis
    by (simp add: ORDER_BY_total_calories_DESC_def)
qed

lemma leaderboard_sorted:
  assumes "leaderboard d = Inr rows"
  shows "sorted_wrt (\<lambda>a b. snd b \<le> snd a) rows"
proof -
  have "sorted (map (\<lambda>r. - snd r) rows)"
    unfolding leaderboard_Inr [OF assms] by (rule sorted_sort_key)
  then show ?thesis
    by (simp add: sorted_map)
qed

lemma leaderboard_keys:
  assumes "leaderboard d = Inr rows"
  shows "distinct (map fst rows)" and "set (map fst rows) = fst ` set (workouts_JOIN_users d)"
proof -
  let ?groups = "map (\<lambda>k. (k, sum_list (map snd (filter (\<lambda>r. fst r = k) (workouts_JOIN_users d)))))
                (rev (sort (remdups (map fst (workouts_JOIN_users d)))))"
  have keys: "map fst ?groups = rev (sort (remdups (map fst (workouts_JOIN_users d))))"
    by (simp add: comp_def)
  then have "distinct (map fst ?groups)"
    by simp
  then have "distinct ?groups" and "inj_on fst (set ?groups)"
    by (simp_all only: distinct_map)
  then have "distinct (map fst (sort_key (\<lambda>r. - snd r) ?groups))"
    by (simp add: distinct_map)
  then show "distinct (map fst rows)"
    by (simp only: leaderboard_Inr [OF assms])
  have "set (map fst (sort_key (\<lambda>r. - snd r) ?groups)) = set (map fst ?groups)"
    by (simp only: set_map set_sort)
  also from keys have "\<dots> = set (rev (sort (remdups (map fst (workouts_JOIN_users d)))))"
    by (rule arg_cong)
  also have "\<dots> = fst ` set (workouts_JOIN_users d)"
    by simp
  finally show "set (map fst rows) = fst ` set (workouts_JOIN_users d)"
    by (simp only: leaderboard_Inr [OF assms])
qed

lemma leaderboard_usernames:
  assumes "leaderboard d = Inr rows"
  shows "set (map fst rows) =
   {username u | u. u \<in> set (users d) \<and> (\<exists>w\<in>set (workouts d). user_id w = id_u u)}"
  using leaderboard_keys(2) [OF assms] by (simp only: JOIN_usernames)

lemma leaderboard_total:
  assumes "distinct (map username (users d))" and "leaderboard d = Inr rows"
    and "(k, t) \<in> set rows"
  shows "\<exists>u\<in>set (users d). username u = k \<and>
           t = sum_list (map calories_burned (filter (\<lambda>w. user_id w = id_u u) (workouts d)))"
proof -
  from assms(3) have "(k, t) \<in> set (map (\<lambda>k. (k, sum_list (map snd (filter (\<lambda>r. fst r = k)
        (workouts_JOIN_users d))))) (rev (sort (remdups (map fst (workouts_JOIN_users d))))))"
    unfolding leaderboard_Inr [OF assms(2)] by simp
  then have k: "k \<in> fst ` set (workouts_JOIN_users d)"
    and t: "t = sum_list (map snd (filter (\<lambda>r. fst r = k) (workouts_JOIN_users d)))"
    by auto
  from k obtain u where u: "u \<in> set (users d)" "username u = k"
    unfolding JOIN_usernames by blast
  from t u JOIN_total_of_user [OF assms(1) u(1)] show ?thesis
    by auto
qed

lemma JOIN_calories:
  "snd ` set (workouts_JOIN_users d) \<subseteq> calories_burned ` set (workouts d)"
  by (auto simp: workouts_JOIN_users_def)

lemma leaderboard_produces:
  assumes ok: "schema_ok d"
    and nonneg: "\<forall>w\<in>set (workouts d). 0 \<le> calories_burned w"
    and fits: "\<forall>u\<in>set (users d).
        in_int64 (sum_list (map calories_burned (filter (\<lambda>w. user_id w = id_u u) (workouts d))))"
  shows "\<exists>rows. leaderboard d = Inr rows"
proof -
  from ok have dist: "distinct (map username (users d))"
    by (simp add: schema_ok_def)
  let ?J = "workouts_JOIN_users d"
  let ?grp = "\<lambda>k. map snd (filter (\<lambda>r. fst r = k) ?J)"
  have each: "SUM_sqlite (?grp k) = Inr (sum_list (?grp k))"
    if "k \<in> set (rev (sort (remdups (map fst ?J))))" for k
  proof -
    from that have "k \<in> fst ` set ?J" by simp
    then obtain u where u: "u \<in> set (users d)" "username u = k"
      unfolding JOIN_usernames by blast
    from JOIN_total_of_user [OF dist u(1)] u(2) fits u(1)
    have range: "in_int64 (sum_list (?grp k))"
      by auto
    have "\<forall>x\<in>set (?grp k). 0 \<le> x"
      using JOIN_calories [of d] nonneg by auto
    from SUM_sqlite_nonneg [OF this range] show ?thesis .
  qed
  then have "\<forall>k\<in>set (rev (sort (remdups (map fst ?J)))). SUM_sqlite (?grp k) = Inr (sum_list (?grp k))"
    by blast
  from grouped_produces [of _ ?grp, OF this] show ?thesis
    by (simp add: leaderboard_def GROUP_BY_username_SUM_def)
qed

lemma leaderboard_overflow:
  assumes ok: "schema_ok d" and u: "u \<in> set (users d)"
    and over: "\<not> in_int64 (sum_list (map calories_burned
                   (filter (\<lambda>w. user_id w = id_u u) (workouts d))))"
  shows "leaderboard d = Inl OperationalError"
proof -
  from ok have dist: "distinct (map username (users d))"
    by (simp add: schema_ok_def)
  let ?J = "workouts_JOIN_users d"
  let ?grp = "\<lambda>k. map snd (filter (\<lambda>r. fst r = k) ?J)"
  have "filter (\<lambda>w. user_id w = id_u u) (workouts d) \<noteq> []"
  proof
    assume "filter (\<lambda>w. user_id w = id_u u) (workouts d) = []"
    with over show False by (simp add: in_int64_def)
  qed
  then obtain w where "w \<in> set (workouts d)" "user_id w = id_u u"
    by (auto simp: filter_empty_conv)
  with u have "username u \<in> fst ` set ?J"
    unfolding JOIN_usernames by blast
  then have key: "username u \<in> set (rev (sort (remdups (map fst ?J))))"
    by simp
  from over JOIN_total_of_user [OF dist u] have "\<not> in_int64 (sum_list (?grp (username u)))"
    by simp
  then have "SUM_sqlite (?grp (username u)) = Inl OperationalError"
    by (rule SUM_sqlite_overflow)
  from grouped_error [of _ _ ?grp, OF key this] show ?thesis
    by (simp add: leaderboard_def GROUP_BY_username_SUM_def)
qed

lemma display_leaderboard_error: "leaderboard d = Inl e \<Longrightarrow> display_leaderboard d = Inl e"
  by (simp add: display_leaderboard_def)


text \<open>
  Claim C2, as the code has it. Whenever the leaderboard query succeeds, its rows are
  in non-increasing order of their totals and, in a store that keeps its schema, the
  total beside a username is the sum of \<^verbatim>\<open>calories_burned\<close> over all workout rows of
  the user with that username. In a store that keeps its schema and has no negative
  calories the query succeeds when every user's sum lies in the signed 64-bit range;
  when some user's sum lies outside it, the query raises "integer overflow" and
  \<^verbatim>\<open>display_leaderboard\<close> writes nothing. With alice at 500 calories and bob at 800,
  bob comes first, and the page writes the two lines in that order.
\<close>

theorem leaderboard_non_increasing:
  "(\<forall>rows. leaderboard d = Inr rows \<longrightarrow>
      sorted_wrt (\<lambda>a b. snd b \<le> snd a) rows \<and>
      (schema_ok d \<longrightarrow>
         (\<forall>(k, t)\<in>set rows.
            \<exists>u\<in>set (users d). username u = k \<and>
              t = sum_list (map calories_burned
                              (filter (\<lambda>w. user_id w = id_u u) (workouts d)))))) \<and>
   (schema_ok d \<and> (\<forall>w\<in>set (workouts d). 0 \<le> calories_burned w) \<and>
    (\<forall>u\<in>set (users d).
       in_int64 (sum_list (map calories_burned
                             (filter (\<lambda>w. user_id w = id_u u) (workouts d))))) \<longrightarrow>
      (\<exists>rows. leaderboard d = Inr rows)) \<and>
   (schema_ok d \<and>
    (\<exists>u\<in>set (users d).
       \<not> in_int64 (sum_list (map calories_burned
                               (filter (\<lambda>w. user_id w = id_u u) (workouts d))))) \<longrightarrow>
      leaderboard d = Inl OperationalError \<and> display_leaderboard d = Inl OperationalError) \<and>
   leaderboard two_users = Inr [(''bob'', 800), (''alice'', 500)] \<and>
   display_leaderboard two_users =
     Inr [''1. bob - 800 calories burned'', ''2. alice - 500 calories burned'']"
proof -
  have totals: "\<forall>(k, t)\<in>set rows.
         \<exists>u\<in>set (users d). username u = k \<and>
           t = sum_list (map calories_burned
                           (filter (\<lambda>w. user_id w = id_u u) (workouts d)))"
    if "leaderboard d = Inr rows" and "schema_ok d" for rows
  proof -
    from that(2) have dist: "distinct (map username (users d))"
      by (simp add: schema_ok_def)
    from leaderboard_total [OF dist that(1)] show ?thesis by blast
  qed
  have raised: "leaderboard d = Inl OperationalError \<and> display_leaderboard d = Inl OperationalError"
    if "schema_ok d" and "\<exists>u\<in>set (users d).
       \<not> in_int64 (sum_list (map calories_burned
                               (filter (\<lambda>w. user_id w = id_u u) (workouts d))))"
  proof -
    from that obtain u where "u \<in> set (users d)"
      "\<not> in_int64 (sum_list (map calories_burned
                               (filter (\<lambda>w. user_id w = id_u u) (workouts d))))"
      by blast
    from leaderboard_overflow [OF that(1) this] show ?thesis
      by (simp add: display_leaderboard_error)
  qed
  have scenario: "leaderboard two_users = Inr [(''bob'', 800), (''alice'', 500)]"
    by code_simp
  have shown: "display_leaderboard two_users =
           Inr [''1. bob - 800 calories burned'', ''2. alice - 500 calories burned'']"
    by code_simp
  from leaderboard_sorted [of d] totals leaderboard_produces [of d] raised scenario shown
  show ?thesis by blast
qed

text \<open>The store of the scenario keeps the schema, and its leaderboard is ordered.\<close>

theorem leaderboard_non_increasing_witness:
  "schema_ok two_users \<and>
   leaderboard two_users = Inr [(''bob'', 800), (''alice'', 500)] \<and>
   sorted_wrt (\<lambda>a b. snd b \<le> snd a) [(''bob'', 800 :: int), (''alice'', 500)]"
proof -
  have users: "users two_users =
     [\<lparr>id_u = 1, username = ''alice'', password = ''secret'', name = ''Alice'',
       email = ''alice@example.org''\<rparr>,
      \<lparr>id_u = 2, username = ''bob'', password = ''hunter2'', name = ''Bob'',
       email = ''bob@example.org''\<rparr>]"
    by code_simp
  have ok: "schema_ok two_users"
    by (simp add: schema_ok_def users)
  from leaderboard_non_increasing [of two_users]
  have lb: "leaderboard two_users = Inr [(''bob'', 800), (''alice'', 500)]"
    and "\<forall>rows. leaderboard two_users = Inr rows \<longrightarrow> sorted_wrt (\<lambda>a b. snd b \<le> snd a) rows"
    by blast+
  then have "sorted_wrt (\<lambda>a b. snd b \<le> snd a) [(''bob'', 800 :: int), (''alice'', 500)]"
    by blast
  with ok lb show ?thesis by blast
qed

text \<open>
  Claim C2 as stated speaks of every database state. With alice's runs of
  9223372036854775807 and 1 calories no sequence is produced: the query raises.
\<close>

theorem leaderboard_overflow_counterexample:
  "map username (users alice_overflow) = [''alice''] \<and>
   map calories_burned (workouts alice_overflow) = [9223372036854775807, 1] \<and>
   leaderboard alice_overflow = Inl OperationalError \<and>
   display_leaderboard alice_overflow = Inl OperationalError"
  by code_simp

text \<open>
  Claim C9, as the code has it. Whenever the leaderboard query succeeds, the
  leaderboard has no username twice, the usernames it lists are exactly those of the
  users that some workout row refers to, and in a store that keeps its schema a user
  without workout rows is not listed: the inner join has no row for such a user, and
  no row with total 0 is made up. In a store that keeps its schema and has no negative
  calories the query succeeds when every user's sum of calories lies in the signed
  64-bit range.
\<close>

theorem leaderboard_only_users_with_workouts:
  "(\<forall>rows. leaderboard d = Inr rows \<longrightarrow>
      distinct (map fst rows) \<and>
      set (map fst rows) =
        {username u | u. u \<in> set (users d) \<and> (\<exists>w\<in>set (workouts d). user_id w = id_u u)} \<and>
      (schema_ok d \<longrightarrow>
         (\<forall>u\<in>set (users d).
            (\<forall>w\<in>set (workouts d). user_id w \<noteq> id_u u) \<longrightarrow>
            username u \<notin> set (map fst rows)))) \<and>
   (schema_ok d \<and> (\<forall>w\<in>set (workouts d). 0 \<le> calories_burned w) \<and>
    (\<forall>u\<in>set (users d).
       in_int64 (sum_list (map calories_burned
                             (filter (\<lambda>w. user_id w = id_u u) (workouts d))))) \<longrightarrow>
      (\<exists>rows. leaderboard d = Inr rows))"
proof -
  have absent: "username u \<notin> set (map fst rows)"
    if lb: "leaderboard d = Inr rows" and ok: "schema_ok d" and u: "u \<in> set (users d)"
      and none: "\<forall>w\<in>set (workouts d). user_id w \<noteq> id_u u" for rows u
  proof
    from ok have dist: "distinct (map username (users d))"
      by (simp add: schema_ok_def)
    assume "username u \<in> set (map fst rows)"
    then have "username u \<in> {username u' | u'. u' \<in> set (users d) \<and>
        (\<exists>w\<in>set (workouts d). user_id w = id_u u')}"
      by (simp only: leaderboard_usernames [OF lb])
    then obtain u' where u': "u' \<in> set (users d)" "username u = username u'"
      and w: "\<exists>w\<in>set (workouts d). user_id w = id_u u'"
      by blast
    from u' have "u' \<in> set (filter (\<lambda>x. username x = username u) (users d))"
      by simp
    then have "u' = u"
      by (simp add: filter_username_unique [OF dist u])
    with w none show False by blast
  qed
  from leaderboard_keys(1) [of d] leaderboard_usernames [of d] absent leaderboard_produces [of d]
  show ?thesis by blast
qed

text \<open>bob has signed up and logged nothing: alice alone is on the leaderboard.\<close>

theorem leaderboard_only_users_with_workouts_witness:
  "schema_ok bob_idle \<and>
   map username (users bob_idle) = [''alice'', ''bob''] \<and>
   map user_id (workouts bob_idle) = [1, 1] \<and>
   leaderboard bob_idle = Inr [(''alice'', 450)] \<and>
   ''bob'' \<notin> set (map fst [(''alice'', 450 :: int)])"
proof -
  have db: "bob_idle =
     \<lparr>users = [\<lparr>id_u = 1, username = ''alice'', password = ''secret'', name = ''Alice'',
                email = ''alice@example.org''\<rparr>,
               \<lparr>id_u = 2, username = ''bob'', password = ''hunter2'', name = ''Bob'',
                email = ''bob@example.org''\<rparr>],
      workouts = [\<lparr>id_w = 1, user_id = 1, workout_type = ''Running'', duration = 30,
                   calories_burned = 300\<rparr>,
                  \<lparr>id_w = 2, user_id = 1, workout_type = ''Cycling'', duration = 20,
                   calories_burned = 150\<rparr>],
      challenges = [], challenge_participants = []\<rparr>"
    by code_simp
  have ok: "schema_ok bob_idle"
    by (simp add: schema_ok_def db)
  have lb: "leaderboard bob_idle = Inr [(''alice'', 450)]"
    by code_simp
  from leaderboard_only_users_with_workouts [of bob_idle] lb ok
  have "\<forall>u\<in>set (users bob_idle).
          (\<forall>w\<in>set (workouts bob_idle). user_id w \<noteq> id_u u) \<longrightarrow>
          username u \<notin> set (map fst [(''alice'', 450 :: int)])"
    by blast
  then have "''bob'' \<notin> set (map fst [(''alice'', 450 :: int)])"
    by (simp add: db)
  with ok lb show ?thesis
    by (simp add: db)
qed

text \<open>
  Claim C9 as stated has one entry for every username with a workout row. alice has two
  workout rows whose calories add up to 9223372036854775808: the query raises and nobody
  is listed.
\<close>

theorem leaderboard_lists_nobody_counterexample:
  "map id_u (users alice_overflow) = [1] \<and>
   map user_id (workouts alice_overflow) = [1, 1] \<and>
   sum_list (map calories_burned (workouts alice_overflow)) = 9223372036854775808 \<and>
   display_leaderboard alice_overflow = Inl OperationalError"
  by code_simp

section \<open>The dashboard\<close>

lemma col_Duration_select:
  "col_Duration (select_workouts d uid) = map duration [w \<leftarrow> workouts d. user_id w = uid]"
  by (simp add: col_Duration_def select_workouts_def comp_def)

lemma col_Calories_select:
  "col_Calories (select_workouts d uid) = map calories_burned [w \<leftarrow> workouts d. user_id w = uid]"
  by (simp add: col_Calories_def select_workouts_def comp_def)

lemma col_Workout_select:
  "col_Workout (select_workouts d uid) = map workout_type [w \<leftarrow> workouts d. user_id w = uid]"
  by (simp add: col_Workout_def select_workouts_def comp_def)

lemma select_workouts_empty:
  "select_workouts d uid = [] \<longleftrightarrow> (\<forall>w\<in>set (workouts d). user_id w \<noteq> uid)"
  by (simp add: select_workouts_def filter_empty_conv)

lemma group_Calories_select:
  "col_Calories (filter (\<lambda>r. fst r = k) (select_workouts d uid)) =
   map calories_burned [w \<leftarrow> workouts d. user_id w = uid \<and> workout_type w = k]"
  by (simp add: col_Calories_def select_workouts_def filter_map comp_def conj_commute)

lemma groupby_keys:
  "map fst (groupby_Workout_Calories_sum df) = sort (remdups (col_Workout df))"
  by (simp add: groupby_Workout_Calories_sum_def comp_def)

lemma groupby_entry:
  "(k, t) \<in> set (groupby_Workout_Calories_sum df) \<Longrightarrow>
   t = Series_sum (col_Calories (filter (\<lambda>r. fst r = k) df))"
  by (auto simp: groupby_Workout_Calories_sum_def)

text \<open>
  Claim C1, as the code has it. For a user with at least one workout row the dashboard
  shows the number of the user's rows; as total duration and total calories the sums
  of the user's durations and calories taken in 64 bits, which are the sums themselves
  whenever these lie in the signed 64-bit range; and one entry per workout type of the
  user, no type twice, each with the 64-bit sum of the calories of the user's rows of
  that type, again the sum itself when it lies in the range. For a user without workout
  rows it shows the notice "You haven't logged any workouts yet." and no totals. For
  alice with (Running, 30, 300) and (Cycling, 20, 150) it shows 2, 50, 450 and
  Cycling: 150, Running: 300.
\<close>

theorem user_dashboard_summary:
  "((\<exists>w\<in>set (workouts d). user_id w = uid) \<longrightarrow>
      (\<exists>m. user_dashboard d uid = Dashboard m \<and>
         total_workouts m = length [w \<leftarrow> workouts d. user_id w = uid] \<and>
         total_duration m =
           int64 (sum_list (map duration [w \<leftarrow> workouts d. user_id w = uid])) \<and>
         (in_int64 (sum_list (map duration [w \<leftarrow> workouts d. user_id w = uid])) \<longrightarrow>
            total_duration m = sum_list (map duration [w \<leftarrow> workouts d. user_id w = uid])) \<and>
         total_calories m =
           int64 (sum_list (map calories_burned [w \<leftarrow> workouts d. user_id w = uid])) \<and>
         (in_int64 (sum_list (map calories_burned [w \<leftarrow> workouts d. user_id w = uid])) \<longrightarrow>
            total_calories m =
              sum_list (map calories_burned [w \<leftarrow> workouts d. user_id w = uid])) \<and>
         distinct (map fst (calories_by_type m)) \<and>
         set (map fst (calories_by_type m)) =
           workout_type ` {w \<in> set (workouts d). user_id w = uid} \<and>
         (\<forall>(k, t)\<in>set (calories_by_type m).
            t = int64 (sum_list (map calories_burned
                   [w \<leftarrow> workouts d. user_id w = uid \<and> workout_type w = k])) \<and>
            (in_int64 (sum_list (map calories_burned
                   [w \<leftarrow> workouts d. user_id w = uid \<and> workout_type w = k])) \<longrightarrow>
             t = sum_list (map calories_burned
                   [w \<leftarrow> workouts d. user_id w = uid \<and> workout_type w = k]))))) \<and>
   ((\<forall>w\<in>set (workouts d). user_id w \<noteq> uid) \<longrightarrow> user_dashboard d uid = No_workouts_yet) \<and>
   user_dashboard alice_two_workouts 1 =
     Dashboard \<lparr>total_workouts = 2, total_duration = 50, total_calories = 450,
                calories_by_type = [(''Cycling'', 150), (''Running'', 300)]\<rparr>"
proof -
  let ?df = "select_workouts d uid"
  let ?m = "\<lparr>total_workouts = length ?df, total_duration = Series_sum (col_Duration ?df),
             total_calories = Series_sum (col_Calories ?df),
             calories_by_type = groupby_Workout_Calories_sum ?df\<rparr>"
  have some: "\<exists>m. user_dashboard d uid = Dashboard m \<and>
         total_workouts m = length [w \<leftarrow> workouts d. user_id w = uid] \<and>
         total_duration m =
           int64 (sum_list (map duration [w \<leftarrow> workouts d. user_id w = uid])) \<and>
         (in_int64 (sum_list (map duration [w \<leftarrow> workouts d. user_id w = uid])) \<longrightarrow>
            total_duration m = sum_list (map duration [w \<leftarrow> workouts d. user_id w = uid])) \<and>
         total_calories m =
           int64 (sum_list (map calories_burned [w \<leftarrow> workouts d. user_id w = uid])) \<and>
         (in_int64 (sum_list (map calories_burned [w \<leftarrow> workouts d. user_id w = uid])) \<longrightarrow>
            total_calories m =
              sum_list (map calories_burned [w \<leftarrow> workouts d. user_id w = uid])) \<and>
         distinct (map fst (calories_by_type m)) \<and>
         set (map fst (calories_by_type m)) =
           workout_type ` {w \<in> set (workouts d). user_id w = uid} \<and>
         (\<forall>(k, t)\<in>set (calories_by_type m).
            t = int64 (sum_list (map calories_burned
                   [w \<leftarrow> workouts d. user_id w = uid \<and> workout_type w = k])) \<and>
            (in_int64 (sum_list (map calories_burned
                   [w \<leftarrow> workouts d. user_id w = uid \<and> workout_type w = k])) \<longrightarrow>
             t = sum_list (map calories_burned
                   [w \<leftarrow> workouts d. user_id w = uid \<and> workout_type w = k])))"
    if rows: "\<exists>w\<in>set (workouts d). user_id w = uid"
  proof -
    from rows have "?df \<noteq> []"
      by (simp add: select_workouts_empty)
    then have shown: "user_dashboard d uid = Dashboard ?m"
      by (simp add: user_dashboard_def Let_def)
    have count: "total_workouts ?m = length [w \<leftarrow> workouts d. user_id w = uid]"
      by (simp add: select_workouts_def)
    have dur: "total_duration ?m =
        int64 (sum_list (map duration [w \<leftarrow> workouts d. user_id w = uid]))"
      by (simp add: col_Duration_select Series_sum_def)
    have dur_exact: "total_duration ?m =
        sum_list (map duration [w \<leftarrow> workouts d. user_id w = uid])"
      if "in_int64 (sum_list (map duration [w \<leftarrow> workouts d. user_id w = uid]))"
      using that by (simp add: col_Duration_select Series_sum_exact)
    have cal: "total_calories ?m =
        int64 (sum_list (map calories_burned [w \<leftarrow> workouts d. user_id w = uid]))"
      by (simp add: col_Calories_select Series_sum_def)
    have cal_exact: "total_calories ?m =
        sum_list (map calories_burned [w \<leftarrow> workouts d. user_id w = uid])"
      if "in_int64 (sum_list (map calories_burned [w \<leftarrow> workouts d. user_id w = uid]))"
      using that by (simp add: col_Calories_select Series_sum_exact)
    have keys: "distinct (map fst (calories_by_type ?m))"
      by (simp add: groupby_keys)
    have types: "set (map fst (calories_by_type ?m)) =
        workout_type ` {w \<in> set (workouts d). user_id w = uid}"
      by (simp add: groupby_keys col_Workout_select)
    have totals: "\<forall>(k, t)\<in>set (calories_by_type ?m).
        t = int64 (sum_list (map calories_burned
               [w \<leftarrow> workouts d. user_id w = uid \<and> workout_type w = k])) \<and>
        (in_int64 (sum_list (map calories_burned
               [w \<leftarrow> workouts d. user_id w = uid \<and> workout_type w = k])) \<longrightarrow>
         t = sum_list (map calories_burned
               [w \<leftarrow> workouts d. user_id w = uid \<and> workout_type w = k]))"
      by (auto dest!: groupby_entry simp: group_Calories_select Series_sum_def int64_id)
    from shown count dur dur_exact cal cal_exact keys types totals show ?thesis
      by blast
  qed
  have none: "user_dashboard d uid = No_workouts_yet"
    if "\<forall>w\<in>set (workouts d). user_id w \<noteq> uid"
    using that by (simp add: user_dashboard_def select_workouts_empty [symmetric])
  have scenario: "user_dashboard alice_two_workouts 1 =
     Dashboard \<lparr>total_workouts = 2, total_duration = 50, total_calories = 450,
                calories_by_type = [(''Cycling'', 150), (''Running'', 300)]\<rparr>"
    by code_simp
  from some none scenario show ?thesis
    by blast
qed

text \<open>Both cases on the scenario: alice with her two workouts, and alice before them.\<close>

theorem user_dashboard_summary_witness:
  "map user_id (workouts alice_two_workouts) = [1, 1] \<and>
   user_dashboard alice_two_workouts 1 =
     Dashboard \<lparr>total_workouts = 2, total_duration = 50, total_calories = 450,
                calories_by_type = [(''Cycling'', 150), (''Running'', 300)]\<rparr> \<and>
   in_int64 450 \<and>
   workouts alice_signed_up = [] \<and>
   user_dashboard alice_signed_up 1 = No_workouts_yet"
proof -
  have two: "map user_id (workouts alice_two_workouts) = [1, 1]"
    by code_simp
  have zero: "workouts alice_signed_up = []"
    by code_simp
  have fits: "in_int64 450"
    by (simp add: in_int64_def)
  from user_dashboard_summary [of alice_two_workouts 1]
       user_dashboard_summary [of alice_signed_up 1] two zero fits
  show ?thesis by simp
qed

text \<open>
  Claim C1 as stated speaks of every finite set of rows and of totals equal to the
  sums. It fails at the empty set: alice has signed up and has no workout row, and the
  dashboard does not show a summary with count 0 and totals 0; it shows the notice. It
  fails where a sum leaves 64 bits: with runs of 9223372036854775807 and 1 calories the
  sum is 9223372036854775808 and the dashboard shows - 9223372036854775808.
\<close>

theorem user_dashboard_no_summary_counterexample:
  "map username (users alice_signed_up) = [''alice''] \<and>
   map id_u (users alice_signed_up) = [1] \<and>
   length [w \<leftarrow> workouts alice_signed_up. user_id w = 1] = 0 \<and>
   user_dashboard alice_signed_up 1 = No_workouts_yet \<and>
   user_dashboard alice_signed_up 1 \<noteq>
     Dashboard \<lparr>total_workouts = 0, total_duration = 0, total_calories = 0,
                calories_by_type = []\<rparr> \<and>
   map (\<lambda>w. (user_id w, workout_type w, duration w, calories_burned w))
       (workouts alice_overflow) =
     [(1, ''Running'', 1, 9223372036854775807), (1, ''Running'', 1, 1)] \<and>
   sum_list (map calories_burned [w \<leftarrow> workouts alice_overflow. user_id w = 1]) =
     9223372036854775808 \<and>
   user_dashboard alice_overflow 1 =
     Dashboard \<lparr>total_workouts = 2, total_duration = 2,
                total_calories = - 9223372036854775808,
                calories_by_type = [(''Running'', - 9223372036854775808)]\<rparr>"
  by code_simp

end
